theory Spec2Isabelle
  imports Main
begin

section \<open>Strings and integers of the host language\<close>

text \<open>
  The client is a Python program. Its strings are modelled as HOL strings; a \<^typ>\<open>char\<close>
  stands for a code point below 256. Python's integers are unbounded, so they are
  \<^typ>\<open>int\<close>. The helpers of this section model the built-in operations the client calls:
  the substring test \<^verbatim>\<open>a in b\<close>, \<^verbatim>\<open>str.split\<close>, \<^verbatim>\<open>str.join\<close>, \<^verbatim>\<open>str.strip\<close>,
  \<^verbatim>\<open>str(int)\<close> as used by the f-strings, \<^verbatim>\<open>int(str)\<close>, and the search for every decimal
  digit of a string with \<^verbatim>\<open>re.findall\<close>.
\<close>

datatype error =
    TypeError string
  | LoginError string
  | NotLoggedInError string
  | ResponseError string
  | AttributeError string
  | KeyError string
  | ValueError string
  | UnboundLocalError string

text \<open>
  \<^const>\<open>LoginError\<close>, \<^const>\<open>NotLoggedInError\<close> and \<^const>\<open>ResponseError\<close> are the client's own
  exception classes and carry their message. \<^const>\<open>TypeError\<close> carries the message where the
  client raises it itself. The exceptions raised by the interpreter (a method called on
  \<^verbatim>\<open>None\<close>, a subscript on \<^verbatim>\<open>None\<close>, a missing attribute key, a malformed integer literal, a
  local variable read before assignment) carry the name or text that was looked up, not the
  interpreter's message.
\<close>

definition isspace :: "char \<Rightarrow> bool" where
  "isspace c = (c \<in> set [CHR 0x09, CHR 0x0A, CHR 0x0B, CHR 0x0C, CHR 0x0D, CHR 0x1C, CHR 0x1D,
                          CHR 0x1E, CHR 0x1F, CHR 0x20, CHR 0x85, CHR 0xA0])"

definition strip :: "string \<Rightarrow> string" where
  "strip s = rev (dropWhile isspace (rev (dropWhile isspace s)))"

definition isdigit :: "char \<Rightarrow> bool" where
  "isdigit c = (c \<in> set ''0123456789'')"

definition digit_value :: "char \<Rightarrow> int" where
  "digit_value c = int (of_char c) - 48"

definition decimal_value :: "string \<Rightarrow> int" where
  "decimal_value ds = foldl (\<lambda>acc c. 10 * acc + digit_value c) 0 ds"

fun starts_with :: "string \<Rightarrow> string \<Rightarrow> bool" where
  "starts_with [] s = True"
| "starts_with (a # as) [] = False"
| "starts_with (a # as) (c # cs) = (a = c \<and> starts_with as cs)"

fun contains :: "string \<Rightarrow> string \<Rightarrow> bool" where
  "contains sub [] = (sub = [])"
| "contains sub (c # cs) = (starts_with sub (c # cs) \<or> contains sub cs)"

fun py_split :: "char \<Rightarrow> string \<Rightarrow> string list" where
  "py_split sep [] = [] # []"
| "py_split sep (c # cs) =
     (if c = sep then [] # py_split sep cs
      else (case py_split sep cs of
              [] \<Rightarrow> [c] # []
            | p # ps \<Rightarrow> (c # p) # ps))"

fun py_join :: "string \<Rightarrow> string list \<Rightarrow> string" where
  "py_join sep [] = []"
| "py_join sep [x] = x"
| "py_join sep (x # y # ys) = x @ sep @ py_join sep (y # ys)"

fun split_first :: "char \<Rightarrow> string \<Rightarrow> (string \<times> string) option" where
  "split_first sep [] = None"
| "split_first sep (c # cs) =
     (if c = sep then Some ([], cs)
      else (case split_first sep cs of
              None \<Rightarrow> None
            | Some (a, b) \<Rightarrow> Some (c # a, b)))"

fun str_nat :: "nat \<Rightarrow> string" where
  "str_nat n = (if n < 10 then [char_of (48 + n)]
                else str_nat (n div 10) @ [char_of (48 + n mod 10)])"

declare str_nat.simps [simp del]

definition str_int :: "int \<Rightarrow> string" where
  "str_int i = (if i < 0 then CHR ''-'' # str_nat (nat (- i)) else str_nat (nat i))"

text \<open>
  \<^verbatim>\<open>int(s)\<close> on a string: surrounding whitespace is dropped (the four separator controls
  \<^verbatim>\<open>0x1C\<close> to \<^verbatim>\<open>0x1F\<close>, which \<^verbatim>\<open>str.strip\<close> removes, are not whitespace here), one sign is
  allowed, and the rest must be decimal digits, where a single underscore may stand between
  two digits. The
  interpreter refuses a literal of more than 4300 digits (its default limit on the
  conversion between strings and integers); the client does not change that limit.
\<close>

definition int_max_str_digits :: nat where
  "int_max_str_digits = 4300"

fun digit_groups :: "string \<Rightarrow> string option" where
  "digit_groups [] = None"
| "digit_groups [c] = (if isdigit c then Some [c] else None)"
| "digit_groups (c # d # cs) =
     (if isdigit c
      then (if d = CHR ''_'' then map_option (Cons c) (digit_groups cs)
            else map_option (Cons c) (digit_groups (d # cs)))
      else None)"

definition int_space :: "char \<Rightarrow> bool" where
  "int_space c = (c \<in> set [CHR 0x09, CHR 0x0A, CHR 0x0B, CHR 0x0C, CHR 0x0D, CHR 0x20,
                            CHR 0x85, CHR 0xA0])"

definition py_int :: "string \<Rightarrow> error + int" where
  "py_int s =
     (let t = rev (dropWhile int_space (rev (dropWhile int_space s)));
          negative = starts_with ''-'' t;
          body = (if starts_with ''-'' t \<or> starts_with ''+'' t then tl t else t)
      in case digit_groups body of
           None \<Rightarrow> Inl (ValueError s)
         | Some ds \<Rightarrow>
             if int_max_str_digits < length ds then Inl (ValueError s)
             else Inr (if negative then - decimal_value ds else decimal_value ds))"

definition findall_digits :: "string \<Rightarrow> string" where
  "findall_digits text = filter isdigit text"

section \<open>Parsed documents\<close>

text \<open>
  The client hands every page to an HTML parser of a library and then walks the tree it
  gets back. The parser is not part of the client; the model starts from the tree. A tree
  is a list of nodes, a node is a text node or an element with its tag name, the tokens of
  its \<^verbatim>\<open>class\<close> attribute, its other attributes and its children. Comments and the contents of
  \<^verbatim>\<open>script\<close> and \<^verbatim>\<open>style\<close> elements are not represented.

  An element the client holds in a variable knows where it is in the tree, since the client
  asks for its following siblings. Such an element is a \<open>tag\<close>: the element's own data and
  the nodes that follow it under the same parent.
\<close>

datatype node =
    Text string
  | Element string "string list" "string \<rightharpoonup> string" "node list"

record tag =
  name :: string
  classes :: "string list"
  attrs :: "string \<rightharpoonup> string"
  contents :: "node list"
  next_siblings :: "node list"

text \<open>All elements below a list of nodes, in document order (\<^verbatim>\<open>.descendants\<close>, tags only).\<close>

function descendants :: "node list \<Rightarrow> tag list" where
  "descendants [] = []"
| "descendants (Text s # rest) = descendants rest"
| "descendants (Element n cs as ch # rest) =
     \<lparr>name = n, classes = cs, attrs = as, contents = ch, next_siblings = rest\<rparr>
       # descendants ch @ descendants rest"
  by pat_completeness auto
termination
  by (relation "measure (size_list size)") auto

text \<open>The elements of one level (\<^verbatim>\<open>.next_siblings\<close>, tags only).\<close>

fun sibling_tags :: "node list \<Rightarrow> tag list" where
  "sibling_tags [] = []"
| "sibling_tags (Text s # rest) = sibling_tags rest"
| "sibling_tags (Element n cs as ch # rest) =
     \<lparr>name = n, classes = cs, attrs = as, contents = ch, next_siblings = rest\<rparr>
       # sibling_tags rest"

text \<open>All text nodes below a list of nodes, in document order.\<close>

function all_strings :: "node list \<Rightarrow> string list" where
  "all_strings [] = []"
| "all_strings (Text s # rest) = s # all_strings rest"
| "all_strings (Element n cs as ch # rest) = all_strings ch @ all_strings rest"
  by pat_completeness auto
termination
  by (relation "measure (size_list size)") auto

text \<open>
  An element that was found counts as true in a condition, whatever its contents, and
  \<^verbatim>\<open>None\<close> counts as false.
  \<^verbatim>\<open>find\<close> returns the first element below the receiver that matches, or \<^verbatim>\<open>None\<close>;
  \<^verbatim>\<open>find_all\<close> returns all of them; \<^verbatim>\<open>find_next_sibling\<close> returns the first matching
  element among the receiver's following siblings. The receiver of \<^verbatim>\<open>find\<close> and \<^verbatim>\<open>find_all\<close>
  is given by its children, so that the document itself can be one.
\<close>

definition find_tag :: "(tag \<Rightarrow> bool) \<Rightarrow> node list \<Rightarrow> tag option" where
  "find_tag P ns = List.find P (descendants ns)"

definition find_all :: "(tag \<Rightarrow> bool) \<Rightarrow> node list \<Rightarrow> tag list" where
  "find_all P ns = filter P (descendants ns)"

definition find_next_sibling :: "(tag \<Rightarrow> bool) \<Rightarrow> tag \<Rightarrow> tag option" where
  "find_next_sibling P t = List.find P (sibling_tags (next_siblings t))"

text \<open>
  \<^verbatim>\<open>.string\<close>: the text of a text node; for an element with exactly one child the
  \<^verbatim>\<open>.string\<close> of that child; otherwise \<^verbatim>\<open>None\<close>.
\<close>

fun node_string :: "node \<Rightarrow> string option" where
  "node_string (Text s) = Some s"
| "node_string (Element n cs as [c]) = node_string c"
| "node_string (Element n cs as ch) = None"

definition tag_string :: "tag \<Rightarrow> string option" where
  "tag_string t = (case contents t of [c] \<Rightarrow> node_string c | _ \<Rightarrow> None)"

text \<open>\<^verbatim>\<open>.text\<close> and \<^verbatim>\<open>get_text(strip=True)\<close>.\<close>

definition tag_text :: "tag \<Rightarrow> string" where
  "tag_text t = concat (all_strings (contents t))"

definition get_text_strip :: "tag \<Rightarrow> string" where
  "get_text_strip t = concat (filter (\<lambda>s. s \<noteq> []) (map strip (all_strings (contents t))))"

text \<open>
  The matchers the client passes to the search functions: a class name matches an element
  when it is one of the tokens of the element's \<^verbatim>\<open>class\<close> attribute, any other attribute
  matches when the element has it with exactly that value, and a tag name matches the
  element's name.
\<close>

definition has_class :: "string \<Rightarrow> tag \<Rightarrow> bool" where
  "has_class c t = (c \<in> set (classes t))"

definition has_attr :: "string \<Rightarrow> string \<Rightarrow> tag \<Rightarrow> bool" where
  "has_attr k v t = (attrs t k = Some v)"

definition named :: "string \<Rightarrow> tag \<Rightarrow> bool" where
  "named n t = (name t = n)"

section \<open>Joining URLs\<close>

text \<open>
  The records build their absolute URLs with \<^verbatim>\<open>urljoin\<close> of the standard library. The model
  follows that function as it stands in CPython 3.11: both URLs are split into scheme, host
  part, path, parameters, query and fragment, the reference is resolved against the base,
  and the result is put together again. The two checks of the host part that only raise
  \<^verbatim>\<open>ValueError\<close> (a bracketed host that is no IP address, a host that changes under Unicode
  normalisation) are not modelled.
\<close>

definition uses_relative :: "string list" where
  "uses_relative = ['''', ''ftp'', ''http'', ''gopher'', ''nntp'', ''imap'', ''wais'', ''file'',
     ''https'', ''shttp'', ''mms'', ''prospero'', ''rtsp'', ''rtsps'', ''rtspu'', ''sftp'',
     ''svn'', ''svn+ssh'', ''ws'', ''wss'']"

definition uses_netloc :: "string list" where
  "uses_netloc = ['''', ''ftp'', ''http'', ''gopher'', ''nntp'', ''telnet'', ''imap'', ''wais'',
     ''file'', ''mms'', ''https'', ''shttp'', ''snews'', ''prospero'', ''rtsp'', ''rtsps'',
     ''rtspu'', ''rsync'', ''svn'', ''svn+ssh'', ''sftp'', ''nfs'', ''git'', ''git+ssh'',
     ''ws'', ''wss'']"

definition uses_params :: "string list" where
  "uses_params = ['''', ''ftp'', ''hdl'', ''prospero'', ''http'', ''imap'', ''https'', ''shttp'',
     ''rtsp'', ''rtsps'', ''rtspu'', ''sip'', ''sips'', ''mms'', ''sftp'', ''tel'']"

definition ascii_lower :: "string" where
  "ascii_lower = ''abcdefghijklmnopqrstuvwxyz''"

definition ascii_upper :: "string" where
  "ascii_upper = ''ABCDEFGHIJKLMNOPQRSTUVWXYZ''"

definition scheme_chars :: "string" where
  "scheme_chars = ascii_lower @ ascii_upper @ ''0123456789'' @ ''+-.''"

definition lower_char :: "char \<Rightarrow> char" where
  "lower_char c = (if c \<in> set ascii_upper then char_of (of_char c + (32::nat)) else c)"

definition c0_control_or_space :: "char \<Rightarrow> bool" where
  "c0_control_or_space c = (of_char c \<le> (32::nat))"

definition unsafe_url_byte :: "char \<Rightarrow> bool" where
  "unsafe_url_byte c = (c \<in> set [CHR 0x09, CHR 0x0D, CHR 0x0A])"

definition splitnetloc :: "string \<Rightarrow> string \<times> string" where
  "splitnetloc rest =
     (takeWhile (\<lambda>c. c \<notin> set ''/?#'') rest, dropWhile (\<lambda>c. c \<notin> set ''/?#'') rest)"

definition urlsplit :: "string \<Rightarrow> string \<Rightarrow> string \<times> string \<times> string \<times> string \<times> string" where
  "urlsplit url0 scheme0 =
     (let url1 = filter (\<lambda>c. \<not> unsafe_url_byte c) (dropWhile c0_control_or_space url0);
          scheme1 = filter (\<lambda>c. \<not> unsafe_url_byte c)
                      (rev (dropWhile c0_control_or_space
                         (rev (dropWhile c0_control_or_space scheme0))));
          (scheme2, url2) =
            (case split_first CHR '':'' url1 of
               None \<Rightarrow> (scheme1, url1)
             | Some (a, b) \<Rightarrow>
                 if a \<noteq> [] \<and> hd a \<in> set (ascii_lower @ ascii_upper)
                    \<and> list_all (\<lambda>c. c \<in> set scheme_chars) a
                 then (map lower_char a, b) else (scheme1, url1));
          (netloc, url3) =
            (if take 2 url2 = ''//'' then splitnetloc (drop 2 url2) else ('''', url2));
          (url4, fragment) =
            (case split_first CHR ''#'' url3 of None \<Rightarrow> (url3, '''') | Some (a, b) \<Rightarrow> (a, b));
          (url5, query) =
            (case split_first CHR ''?'' url4 of None \<Rightarrow> (url4, '''') | Some (a, b) \<Rightarrow> (a, b))
      in (scheme2, netloc, url5, query, fragment))"

definition splitparams :: "string \<Rightarrow> string \<times> string" where
  "splitparams url =
     (if CHR ''/'' \<in> set url
      then (let seg = last (py_split CHR ''/'' url);
                pre = take (length url - length seg) url
            in case split_first CHR '';'' seg of
                 None \<Rightarrow> (url, '''')
               | Some (a, b) \<Rightarrow> (pre @ a, b))
      else (case split_first CHR '';'' url of
              None \<Rightarrow> (url, '''')
            | Some (a, b) \<Rightarrow> (a, b)))"

definition urlparse ::
  "string \<Rightarrow> string \<Rightarrow> string \<times> string \<times> string \<times> string \<times> string \<times> string" where
  "urlparse url0 scheme0 =
     (let (scheme, netloc, path, query, fragment) = urlsplit url0 scheme0;
          (path', params) =
            (if scheme \<in> set uses_params \<and> CHR '';'' \<in> set path then splitparams path
             else (path, ''''))
      in (scheme, netloc, path', params, query, fragment))"

definition urlunsplit :: "string \<times> string \<times> string \<times> string \<times> string \<Rightarrow> string" where
  "urlunsplit parts =
     (let (scheme, netloc, url0, query, fragment) = parts;
          url1 = (if netloc \<noteq> [] \<or> (scheme \<noteq> [] \<and> scheme \<in> set uses_netloc)
                     \<or> take 2 url0 = ''//''
                  then ''//'' @ netloc @ (if url0 \<noteq> [] \<and> take 1 url0 \<noteq> ''/''
                                         then CHR ''/'' # url0 else url0)
                  else url0);
          url2 = (if scheme \<noteq> [] then scheme @ '':'' @ url1 else url1);
          url3 = (if query \<noteq> [] then url2 @ ''?'' @ query else url2)
      in if fragment \<noteq> [] then url3 @ ''#'' @ fragment else url3)"

definition urlunparse ::
  "string \<times> string \<times> string \<times> string \<times> string \<times> string \<Rightarrow> string" where
  "urlunparse parts =
     (let (scheme, netloc, url0, params, query, fragment) = parts;
          url1 = (if params \<noteq> [] then url0 @ '';'' @ params else url0)
      in urlunsplit (scheme, netloc, url1, query, fragment))"

text \<open>The loop of \<^verbatim>\<open>urljoin\<close> that removes the dot segments.\<close>

fun resolve_segments :: "string list \<Rightarrow> string list \<Rightarrow> string list" where
  "resolve_segments [] resolved_path = resolved_path"
| "resolve_segments (seg # segs) resolved_path =
     (if seg = ''..'' then resolve_segments segs (butlast resolved_path)
      else if seg = ''.'' then resolve_segments segs resolved_path
      else resolve_segments segs (resolved_path @ [seg]))"

text \<open>The assignment \<^verbatim>\<open>segments[1:-1] = filter(None, segments[1:-1])\<close>.\<close>

definition filter_inner :: "string list \<Rightarrow> string list" where
  "filter_inner segments =
     (if length segments < 2 then segments
      else hd segments # filter (\<lambda>s. s \<noteq> []) (butlast (tl segments)) @ [last segments])"

definition urljoin :: "string \<Rightarrow> string \<Rightarrow> string" where
  "urljoin base url0 =
     (if base = [] then url0
      else if url0 = [] then base
      else
        let (bscheme, bnetloc, bpath, bparams, bquery, bfragment) = urlparse base '''';
            (scheme, netloc, path, params, query, fragment) = urlparse url0 bscheme
        in if scheme \<noteq> bscheme \<or> scheme \<notin> set uses_relative then url0
           else if scheme \<in> set uses_netloc \<and> netloc \<noteq> []
           then urlunparse (scheme, netloc, path, params, query, fragment)
           else
             let netloc' = (if scheme \<in> set uses_netloc then bnetloc else netloc)
             in if path = [] \<and> params = []
                then urlunparse (scheme, netloc', bpath, bparams,
                                 (if query = [] then bquery else query), fragment)
                else
                  let base_parts0 = py_split CHR ''/'' bpath;
                      base_parts = (if last base_parts0 \<noteq> [] then butlast base_parts0
                                    else base_parts0);
                      segments = (if take 1 path = ''/'' then py_split CHR ''/'' path
                                  else filter_inner (base_parts @ py_split CHR ''/'' path));
                      resolved0 = resolve_segments segments [];
                      resolved_path = (if last segments \<in> set [''.'', ''..'']
                                       then resolved0 @ ([] # []) else resolved0);
                      joined = py_join ''/'' resolved_path
                  in urlunparse (scheme, netloc', (if joined = [] then ''/'' else joined),
                                 params, query, fragment))"

section \<open>Constants and domain records\<close>

definition BASE_URL :: string where
  "BASE_URL = ''https://www.gradescope.com''"

definition LOGIN_URL :: string where
  "LOGIN_URL = BASE_URL @ ''/login''"

text \<open>
  A \<open>Course\<close> as \<^verbatim>\<open>get_courses\<close> builds it: the \<^verbatim>\<open>url\<close> is the anchor's \<^verbatim>\<open>href\<close> attribute, or
  \<^verbatim>\<open>None\<close> when the anchor has none.
\<close>

record Course =
  course_id :: int
  url :: "string option"
  "term" :: string
  short_name :: string
  full_name :: string

record Assignment =
  assignment_id :: int
  ready_for_submission :: bool
  url :: string
  title :: string
  late_submission_warning :: bool
  submission_status :: string
  released_time :: string
  due_time :: string

text \<open>\<^verbatim>\<open>Course.get_url\<close>; \<^verbatim>\<open>urljoin\<close> returns the base for a reference that is \<^verbatim>\<open>None\<close>.\<close>

definition get_url :: "Course \<Rightarrow> string" where
  "get_url self = (case Course.url self of None \<Rightarrow> BASE_URL | Some u \<Rightarrow> urljoin BASE_URL u)"

text \<open>\<^verbatim>\<open>Assignment.get_url\<close> and \<^verbatim>\<open>Assignment.get_grades_url\<close>.\<close>

definition assignment_get_url :: "Assignment \<Rightarrow> string" where
  "assignment_get_url self = urljoin BASE_URL (Assignment.url self)"

definition get_grades_url :: "Assignment \<Rightarrow> string" where
  "get_grades_url self = urljoin BASE_URL (Assignment.url self @ ''/scores.csv'')"

section \<open>The HTTP session\<close>

text \<open>
  The client talks to the site through one session object, which keeps the cookies. The
  model records the requests the session has sent, in order. The site is a function from
  that history (the request being answered is its last element) to a response, so that an
  answer may depend on everything the session sent before, as it does with cookies.
  A response carries its status code, its final URL (the URL of the last response after the
  redirects were followed, which need not be the URL that was requested) and the tree the
  HTML parser builds from its text. Every request is answered: failures of the transport
  are not modelled.
\<close>

datatype form_value = FStr string | FInt int | FNone

datatype request =
    GET string
  | POST string "(string \<times> form_value) list"

record response =
  status_code :: int
  url :: string
  soup :: "node list"

type_synonym server = "request list \<Rightarrow> response"

datatype level = INFO | WARNING

text \<open>
  The client object. \<open>logged_in\<close> is \<open>None\<close> as long as the attribute has not been assigned:
  the constructor does not initialise it, only \<^verbatim>\<open>login\<close> assigns it. \<open>log\<close> collects what the
  client writes to the logging module.
\<close>

record Gradescope =
  username :: "string option"
  password :: "string option"
  logged_in :: "bool option"
  session :: "request list"
  log :: "(level \<times> string) list"

definition session_get :: "server \<Rightarrow> string \<Rightarrow> Gradescope \<Rightarrow> response \<times> Gradescope" where
  "session_get srv u self =
     (let history = session self @ [GET u] in (srv history, self\<lparr>session := history\<rparr>))"

definition session_post ::
  "server \<Rightarrow> string \<Rightarrow> (string \<times> form_value) list \<Rightarrow> Gradescope \<Rightarrow> response \<times> Gradescope" where
  "session_post srv u data self =
     (let history = session self @ [POST u data] in (srv history, self\<lparr>session := history\<rparr>))"

section \<open>The client\<close>

definition response_check :: "response \<Rightarrow> error + bool" where
  "response_check r =
     (if status_code r = 200 then Inr True
      else Inl (ResponseError (''Failed to fetch the webpage. Status code: ''
                  @ str_int (status_code r) @ ''. URL: '' @ response.url r)))"

definition parse_int :: "string \<Rightarrow> error + int" where
  "parse_int text = py_int (findall_digits text)"

definition login :: "server \<Rightarrow> Gradescope \<Rightarrow> (error + bool) \<times> Gradescope" where
  "login srv self =
     (if username self = None \<or> password self = None
      then (Inl (TypeError ''The username or password cannot be None.''), self)
      else
        case session_get srv BASE_URL self of (response, self1) \<Rightarrow>
        (case response_check response of
          Inl e \<Rightarrow> (Inl e, self1)
        | Inr ok \<Rightarrow>
           (case find_tag (\<lambda>t. named ''input'' t \<and> has_attr ''name'' ''authenticity_token'' t)
                   (soup response) of
              None \<Rightarrow> (Inl (UnboundLocalError ''authenticity_token''), self1)
            | Some token_input \<Rightarrow>
                let authenticity_token = attrs token_input ''value'';
                    data = [(''authenticity_token'',
                               (case authenticity_token of None \<Rightarrow> FNone | Some v \<Rightarrow> FStr v)),
                            (''session[email]'', FStr (the (username self))),
                            (''session[password]'', FStr (the (password self))),
                            (''session[remember_me]'', FInt 0),
                            (''commit'', FStr ''Log In''),
                            (''session[remember_me_sso]'', FInt 0)]
                in case session_post srv LOGIN_URL data self1 of (response2, self2) \<Rightarrow>
                   (case response_check response2 of
                     Inl e \<Rightarrow> (Inl e, self2)
                   | Inr ok2 \<Rightarrow>
                       if contains ''account'' (response.url response2)
                       then (Inr True, self2\<lparr>logged_in := Some True\<rparr>)
                       else if contains ''login'' (response.url response2)
                       then (Inr False, self2\<lparr>logged_in := Some False\<rparr>)
                       else (Inl (LoginError ''Unknown return URL.''),
                             self2\<lparr>logged_in := Some False\<rparr>)))))"

text \<open>
  The constructor. A result \<open>Inr ()\<close> means that the object was built; the state is then
  the new object. With \<open>Inl\<close> the constructor raised and the caller gets no object; the
  state shows what had been done until then.
\<close>

definition init :: "server \<Rightarrow> string option \<Rightarrow> string option \<Rightarrow> (error + unit) \<times> Gradescope" where
  "init srv username0 password0 =
     (let self = \<lparr>username = username0, password = password0, logged_in = None,
                   session = [], log = []\<rparr>
      in case login srv self of
           (Inl e, self1) \<Rightarrow> (Inl e, self1)
         | (Inr is_logged, self1) \<Rightarrow>
             (Inr (),
              self1\<lparr>log := log self1 @
                 [if is_logged then (INFO, ''[Info] Login successful.'')
                  else (WARNING, ''[Warning] Login failed.'')]\<rparr>))"

text \<open>
  Building one \<open>Course\<close> from a course box. Python evaluates the arguments of the
  constructor call from left to right: the identifier first, then the two names.
\<close>

definition make_course :: "string \<Rightarrow> tag \<Rightarrow> error + Course" where
  "make_course term_name course =
     (case parse_int (last (py_split CHR ''/''
                        (case attrs course ''href'' of None \<Rightarrow> [] | Some h \<Rightarrow> h))) of
        Inl e \<Rightarrow> Inl e
      | Inr cid \<Rightarrow>
         (case find_tag (has_class ''courseBox--shortname'') (contents course) of
            None \<Rightarrow> Inl (AttributeError ''get_text'')
          | Some shortname \<Rightarrow>
             (case find_tag (has_class ''courseBox--name'') (contents course) of
                None \<Rightarrow> Inl (AttributeError ''get_text'')
              | Some fullname \<Rightarrow>
                  Inr \<lparr>course_id = cid, Course.url = attrs course ''href'', term = term_name,
                       short_name = get_text_strip shortname,
                       full_name = get_text_strip fullname\<rparr>)))"

text \<open>The inner loop of \<^verbatim>\<open>get_courses\<close>, over the course boxes of one term.\<close>

fun boxes_loop :: "string \<Rightarrow> tag list \<Rightarrow> Course list \<Rightarrow> error + Course list" where
  "boxes_loop term_name [] courses = Inr courses"
| "boxes_loop term_name (course # rest) courses =
     (if name course = ''a''
      then (case make_course term_name course of
              Inl e \<Rightarrow> Inl e
            | Inr c \<Rightarrow> boxes_loop term_name rest (courses @ [c]))
      else boxes_loop term_name rest courses)"

text \<open>The outer loop of \<^verbatim>\<open>get_courses\<close>, over the term labels.\<close>

fun terms_loop :: "tag list \<Rightarrow> Course list \<Rightarrow> error + Course list" where
  "terms_loop [] courses = Inr courses"
| "terms_loop (term0 # rest) courses =
     (let term_name = get_text_strip term0 in
      case find_next_sibling (has_class ''courseList--coursesForTerm'') term0 of
        None \<Rightarrow> terms_loop rest courses
      | Some courses_container \<Rightarrow>
          (case boxes_loop term_name
                  (find_all (has_class ''courseBox'') (contents courses_container)) courses of
             Inl e \<Rightarrow> Inl e
           | Inr courses1 \<Rightarrow> terms_loop rest courses1))"

definition get_courses :: "server \<Rightarrow> Gradescope \<Rightarrow> (error + Course list) \<times> Gradescope" where
  \<open>get_courses srv self =
     (case logged_in self of
        None \<Rightarrow> (Inl (AttributeError ''logged_in''), self)
      | Some flag \<Rightarrow>
          if \<not> flag then (Inl (NotLoggedInError ''Not logged in.''), self)
          else
            case session_get srv BASE_URL self of (response, self1) \<Rightarrow>
            (case response_check response of
              Inl e \<Rightarrow> (Inl e, self1)
            | Inr ok \<Rightarrow>
               (case find_tag (\<lambda>t. named ''h1'' t \<and> tag_string t = Some ''Your Courses'')
                       (soup response) of
                  None \<Rightarrow> (Inl (ResponseError ''Cannot find heading "Your Courses"''), self1)
                | Some current_heading \<Rightarrow>
                   (case find_next_sibling (\<lambda>t. named ''div'' t \<and> has_class ''courseList'' t)
                           current_heading of
                      None \<Rightarrow> (Inl (AttributeError ''find_all''), self1)
                    | Some course_lists \<Rightarrow>
                       (case terms_loop (find_all (has_class ''courseList--term'')
                                           (contents course_lists)) [] of
                          Inl e \<Rightarrow> (Inl e, self1)
                        | Inr courses \<Rightarrow>
                            (Inr courses,
                             self1\<lparr>log := log self1 @
                               [(INFO, ''[Info] Found '' @ str_int (int (length courses))
                                         @ '' courses.'')]\<rparr>))))))\<close>

text \<open>
  \<^verbatim>\<open>get_term_courses\<close> reads the clock; the month and the year it reads are parameters here.
\<close>

definition get_term_courses ::
  "server \<Rightarrow> int \<Rightarrow> int \<Rightarrow> Gradescope \<Rightarrow> (error + Course list) \<times> Gradescope" where
  "get_term_courses srv current_month current_year self =
     (case get_courses srv self of
        (Inl e, self1) \<Rightarrow> (Inl e, self1)
      | (Inr courses, self1) \<Rightarrow>
          let season = (if 2 \<le> current_month \<and> current_month \<le> 6 then ''Spring''
                        else if 9 \<le> current_month \<and> current_month \<le> 12 then ''Fall''
                        else ''Summer'');
              term_courses = filter (\<lambda>course. term course = season @ '' '' @ str_int current_year)
                               courses
          in (Inr term_courses,
              self1\<lparr>log := log self1 @
                [(INFO, ''[Info] Found '' @ str_int (int (length term_courses))
                          @ '' courses for the current term.'')]\<rparr>))"

text \<open>
  \<^verbatim>\<open>get_assignments\<close> returns one dictionary per table row. \<open>subscript x key\<close> is the
  expression \<^verbatim>\<open>x[key]\<close> on the result of a \<^verbatim>\<open>find\<close>: a type error when the search found
  nothing, a key error when the element lacks the attribute. \<open>deref a x\<close> is the use of the
  attribute or method \<open>a\<close> of such a result, an attribute error when the search found nothing.
  \<open>and_then\<close> sequences two steps: the first exception ends the row.
\<close>

datatype field_value = VInt int | VBool bool | VStr string

definition subscript :: "tag option \<Rightarrow> string \<Rightarrow> error + string" where
  "subscript x key =
     (case x of
        None \<Rightarrow> Inl (TypeError key)
      | Some t \<Rightarrow> (case attrs t key of None \<Rightarrow> Inl (KeyError key) | Some v \<Rightarrow> Inr v))"

definition and_then :: "error + 'a \<Rightarrow> ('a \<Rightarrow> error + 'b) \<Rightarrow> error + 'b" where
  "and_then r f = (case r of Inl e \<Rightarrow> Inl e | Inr v \<Rightarrow> f v)"

definition deref :: "string \<Rightarrow> tag option \<Rightarrow> error + tag" where
  "deref attribute x = (case x of None \<Rightarrow> Inl (AttributeError attribute) | Some t \<Rightarrow> Inr t)"

definition parse_row :: "tag \<Rightarrow> error + (string \<rightharpoonup> field_value)" where
  "parse_row row =
     (let button = find_tag (\<lambda>t. named ''button'' t \<and> has_class ''js-submitAssignment'' t)
                     (contents row)
      in
      and_then (subscript button ''data-assignment-id'') (\<lambda>id_text.
      and_then (py_int id_text) (\<lambda>aid.
      and_then (subscript button ''data-ready-for-submission'') (\<lambda>ready.
      and_then (subscript button ''data-post-url'') (\<lambda>post_url.
      and_then (subscript button ''data-assignment-title'') (\<lambda>title0.
      and_then (subscript button ''data-show-late-submission-warning'') (\<lambda>late.
      and_then (deref ''find''
                  (find_tag (\<lambda>t. named ''td'' t \<and> has_class ''submissionStatus'' t)
                     (contents row))) (\<lambda>status_cell.
      and_then (deref ''text''
                  (find_tag (\<lambda>t. named ''div'' t \<and> has_class ''submissionStatus--text'' t)
                     (contents status_cell))) (\<lambda>status_text.
      and_then (subscript
                  (find_tag (\<lambda>t. named ''time'' t
                                \<and> has_class ''submissionTimeChart--releaseDate'' t)
                     (contents row)) ''datetime'') (\<lambda>released.
      and_then (subscript
                  (find_tag (\<lambda>t. named ''time'' t
                                \<and> has_class ''submissionTimeChart--dueDate'' t)
                     (contents row)) ''datetime'') (\<lambda>due.
      Inr [''assignment_id'' \<mapsto> VInt aid,
           ''ready_for_submission'' \<mapsto> VBool (ready = ''true''),
           ''url'' \<mapsto> VStr post_url,
           ''title'' \<mapsto> VStr title0,
           ''late_submission_warning'' \<mapsto> VBool (late = ''true''),
           ''submission_status'' \<mapsto> VStr (strip (tag_text status_text)),
           ''released_time'' \<mapsto> VStr released,
           ''due_time'' \<mapsto> VStr due])))))))))))"

fun rows_loop ::
  "tag list \<Rightarrow> (string \<rightharpoonup> field_value) list \<Rightarrow> error + (string \<rightharpoonup> field_value) list" where
  "rows_loop [] assignments = Inr assignments"
| "rows_loop (row # rest) assignments =
     (case parse_row row of
        Inl e \<Rightarrow> Inl e
      | Inr assignment \<Rightarrow> rows_loop rest (assignments @ [assignment]))"

definition get_assignments ::
  "server \<Rightarrow> Course \<Rightarrow> Gradescope \<Rightarrow> (error + (string \<rightharpoonup> field_value) list) \<times> Gradescope" where
  "get_assignments srv course self =
     (case logged_in self of
        None \<Rightarrow> (Inl (AttributeError ''logged_in''), self)
      | Some flag \<Rightarrow>
          if \<not> flag then (Inl (NotLoggedInError ''Not logged in.''), self)
          else
            case session_get srv (get_url course) self of (response, self1) \<Rightarrow>
            (case response_check response of
              Inl e \<Rightarrow> (Inl e, self1)
            | Inr ok \<Rightarrow>
               (case find_tag (\<lambda>t. named ''table'' t
                                 \<and> has_attr ''id'' ''assignments-student-table'' t)
                       (soup response) of
                  None \<Rightarrow> (Inl (AttributeError ''find''), self1)
                | Some assignments_data \<Rightarrow>
                   (case find_tag (named ''tbody'') (contents assignments_data) of
                      None \<Rightarrow> (Inl (AttributeError ''find_all''), self1)
                    | Some tbody \<Rightarrow>
                       (case rows_loop (find_all (named ''tr'') (contents tbody)) [] of
                          Inl e \<Rightarrow> (Inl e, self1)
                        | Inr assignments \<Rightarrow> (Inr assignments, self1))))))"

section \<open>Notions used to state the properties\<close>

text \<open>The state of a client object when the constructor starts, before it calls \<^verbatim>\<open>login\<close>.\<close>

definition new_client :: "string option \<Rightarrow> string option \<Rightarrow> Gradescope" where
  "new_client username0 password0 =
     \<lparr>username = username0, password = password0, logged_in = None, session = [], log = []\<rparr>"

text \<open>The form that \<^verbatim>\<open>login\<close> posts, given the token field it found.\<close>

definition login_form :: "Gradescope \<Rightarrow> tag \<Rightarrow> (string \<times> form_value) list" where
  "login_form self token_input =
     [(''authenticity_token'',
         (case attrs token_input ''value'' of None \<Rightarrow> FNone | Some v \<Rightarrow> FStr v)),
      (''session[email]'', FStr (the (username self))),
      (''session[password]'', FStr (the (password self))),
      (''session[remember_me]'', FInt 0),
      (''commit'', FStr ''Log In''),
      (''session[remember_me_sso]'', FInt 0)]"

definition is_token_input :: "tag \<Rightarrow> bool" where
  "is_token_input t = (named ''input'' t \<and> has_attr ''name'' ''authenticity_token'' t)"

text \<open>The message of the response error for a status code and a URL.\<close>

definition fetch_failure :: "int \<Rightarrow> string \<Rightarrow> string" where
  "fetch_failure code u =
     ''Failed to fetch the webpage. Status code: '' @ str_int code @ ''. URL: '' @ u"

text \<open>
  A sequence of calls on a client object, and what each call gave: the value it returned,
  or the exception it raised.
\<close>

datatype call =
    Login
  | GetCourses
  | GetTermCourses int int
  | GetAssignments Course

datatype outcome =
    Raised error
  | LoginReturned bool
  | CoursesReturned "Course list"
  | AssignmentsReturned "(string \<rightharpoonup> field_value) list"

definition run_call :: "server \<Rightarrow> call \<Rightarrow> Gradescope \<Rightarrow> outcome \<times> Gradescope" where
  "run_call srv c self =
     (case c of
        Login \<Rightarrow>
          (case login srv self of
             (Inl e, self1) \<Rightarrow> (Raised e, self1)
           | (Inr b, self1) \<Rightarrow> (LoginReturned b, self1))
      | GetCourses \<Rightarrow>
          (case get_courses srv self of
             (Inl e, self1) \<Rightarrow> (Raised e, self1)
           | (Inr cs, self1) \<Rightarrow> (CoursesReturned cs, self1))
      | GetTermCourses m y \<Rightarrow>
          (case get_term_courses srv m y self of
             (Inl e, self1) \<Rightarrow> (Raised e, self1)
           | (Inr cs, self1) \<Rightarrow> (CoursesReturned cs, self1))
      | GetAssignments course \<Rightarrow>
          (case get_assignments srv course self of
             (Inl e, self1) \<Rightarrow> (Raised e, self1)
           | (Inr as, self1) \<Rightarrow> (AssignmentsReturned as, self1)))"

fun run_calls :: "server \<Rightarrow> call list \<Rightarrow> Gradescope \<Rightarrow> outcome list \<times> Gradescope" where
  "run_calls srv [] self = ([], self)"
| "run_calls srv (c # cs) self =
     (case run_call srv c self of
        (out, self1) \<Rightarrow>
          (case run_calls srv cs self1 of (outs, self2) \<Rightarrow> (out # outs, self2)))"

text \<open>
  The course boxes that \<^verbatim>\<open>get_courses\<close> visits on a page, each with the name of the term it
  is visited for: for every term label in document order, the elements of class
  \<^verbatim>\<open>courseBox\<close> below the label's next sibling of class \<^verbatim>\<open>courseList--coursesForTerm\<close>, in
  document order. The result is \<open>None\<close> when the heading or the course list is missing.
\<close>

definition is_heading :: "tag \<Rightarrow> bool" where
  "is_heading t = (named ''h1'' t \<and> tag_string t = Some ''Your Courses'')"

definition is_course_list :: "tag \<Rightarrow> bool" where
  "is_course_list t = (named ''div'' t \<and> has_class ''courseList'' t)"

definition term_boxes :: "tag \<Rightarrow> (string \<times> tag) list" where
  "term_boxes term0 =
     (case find_next_sibling (has_class ''courseList--coursesForTerm'') term0 of
        None \<Rightarrow> []
      | Some courses_container \<Rightarrow>
          map (Pair (get_text_strip term0))
            (find_all (has_class ''courseBox'') (contents courses_container)))"

definition term_labels :: "node list \<Rightarrow> tag list option" where
  "term_labels page =
     (case find_tag is_heading page of
        None \<Rightarrow> None
      | Some current_heading \<Rightarrow>
          (case find_next_sibling is_course_list current_heading of
             None \<Rightarrow> None
           | Some course_lists \<Rightarrow>
               Some (find_all (has_class ''courseList--term'') (contents course_lists))))"

definition visited_boxes :: "node list \<Rightarrow> (string \<times> tag) list option" where
  "visited_boxes page = map_option (\<lambda>terms. concat (map term_boxes terms)) (term_labels page)"

definition is_anchor :: "string \<times> tag \<Rightarrow> bool" where
  "is_anchor tb = (name (snd tb) = ''a'')"

text \<open>The digits of the last segment of a course box's \<^verbatim>\<open>href\<close>.\<close>

definition href_digits :: "tag \<Rightarrow> string" where
  "href_digits course =
     findall_digits (last (py_split CHR ''/''
        (case attrs course ''href'' of None \<Rightarrow> [] | Some h \<Rightarrow> h)))"

text \<open>The landmarks of a row of the assignments table, and the rows of a page.\<close>

definition has_button :: "tag \<Rightarrow> bool" where
  "has_button row =
     (find_tag (\<lambda>t. named ''button'' t \<and> has_class ''js-submitAssignment'' t) (contents row)
        \<noteq> None)"

definition has_status :: "tag \<Rightarrow> bool" where
  "has_status row =
     (case find_tag (\<lambda>t. named ''td'' t \<and> has_class ''submissionStatus'' t) (contents row) of
        None \<Rightarrow> False
      | Some status_cell \<Rightarrow>
          find_tag (\<lambda>t. named ''div'' t \<and> has_class ''submissionStatus--text'' t)
            (contents status_cell) \<noteq> None)"

definition has_times :: "tag \<Rightarrow> bool" where
  "has_times row =
     (find_tag (\<lambda>t. named ''time'' t \<and> has_class ''submissionTimeChart--releaseDate'' t)
        (contents row) \<noteq> None
      \<and> find_tag (\<lambda>t. named ''time'' t \<and> has_class ''submissionTimeChart--dueDate'' t)
          (contents row) \<noteq> None)"

definition is_assignments_table :: "tag \<Rightarrow> bool" where
  "is_assignments_table t = (named ''table'' t \<and> has_attr ''id'' ''assignments-student-table'' t)"

definition table_rows :: "node list \<Rightarrow> tag list option" where
  "table_rows page =
     (case find_tag is_assignments_table page of
        None \<Rightarrow> None
      | Some assignments_data \<Rightarrow>
          (case find_tag (named ''tbody'') (contents assignments_data) of
             None \<Rightarrow> None
           | Some tbody \<Rightarrow> Some (find_all (named ''tr'') (contents tbody))))"

text \<open>
  The four kinds of error that the interpreter raises when a page lacks a node or an
  attribute, or when a text is no number: type, attribute, key and value errors.
\<close>

definition lookup_error :: "error \<Rightarrow> bool" where
  "lookup_error e =
     (case e of
        TypeError m \<Rightarrow> True
      | AttributeError m \<Rightarrow> True
      | KeyError m \<Rightarrow> True
      | ValueError m \<Rightarrow> True
      | UnboundLocalError m \<Rightarrow> False
      | LoginError m \<Rightarrow> False
      | NotLoggedInError m \<Rightarrow> False
      | ResponseError m \<Rightarrow> False)"

text \<open>Whether an outcome is a call of \<^verbatim>\<open>login\<close> that returned true.\<close>

definition login_succeeded :: "outcome \<Rightarrow> bool" where
  "login_succeeded out = (case out of LoginReturned b \<Rightarrow> b | _ \<Rightarrow> False)"

text \<open>
  The two loops of \<^verbatim>\<open>get_courses\<close> as one loop over the visited boxes. It is used to state
  and prove properties of the loops; the loops themselves are \<open>terms_loop\<close> and
  \<open>boxes_loop\<close>.
\<close>

fun pairs_loop :: "(string \<times> tag) list \<Rightarrow> Course list \<Rightarrow> error + Course list" where
  "pairs_loop [] courses = Inr courses"
| "pairs_loop (tb # rest) courses =
     (if name (snd tb) = ''a''
      then (case make_course (fst tb) (snd tb) of
              Inl e \<Rightarrow> Inl e
            | Inr c \<Rightarrow> pairs_loop rest (courses @ [c]))
      else pairs_loop rest courses)"

definition has_container :: "tag \<Rightarrow> bool" where
  "has_container term0 =
     (find_next_sibling (has_class ''courseList--coursesForTerm'') term0 \<noteq> None)"

definition has_names :: "tag \<Rightarrow> bool" where
  "has_names course =
     (find_tag (has_class ''courseBox--shortname'') (contents course) \<noteq> None
      \<and> find_tag (has_class ''courseBox--name'') (contents course) \<noteq> None)"

definition no_heading_message :: string where
  \<open>no_heading_message = ''Cannot find heading "Your Courses"''\<close>

definition found_message :: "nat \<Rightarrow> string" where
  "found_message n = ''[Info] Found '' @ str_int (int n) @ '' courses.''"





text \<open>The \<^verbatim>\<open>href\<close> of a course box as the client reads it, empty when the box has none.\<close>

definition href_of :: "tag \<Rightarrow> string" where
  "href_of course = (case attrs course ''href'' of None \<Rightarrow> [] | Some h \<Rightarrow> h)"


text \<open>The anchors of class \<^verbatim>\<open>courseBox\<close> of a page, in document order.\<close>

definition is_anchor_box :: "tag \<Rightarrow> bool" where
  "is_anchor_box t = (has_class ''courseBox'' t \<and> name t = ''a'')"

definition anchor_boxes :: "node list \<Rightarrow> tag list" where
  "anchor_boxes page = find_all is_anchor_box page"

section \<open>Example pages and sites\<close>

definition el :: "string \<Rightarrow> string list \<Rightarrow> (string \<times> string) list \<Rightarrow> node list \<Rightarrow> node" where
  "el n cs as ch = Element n cs (map_of as) ch"

definition token_field :: node where
  "token_field = el ''input'' [] [(''type'', ''hidden''), (''name'', ''authenticity_token''),
                                  (''value'', ''t0k3n'')] []"

definition course_box :: node where
  "course_box =
     el ''a'' [''courseBox''] [(''href'', ''/courses/42'')]
       [el ''h3'' [''courseBox--shortname''] [] [Text ''CS101''],
        el ''div'' [''courseBox--name''] [] [Text ''Intro to CS'']]"

definition add_course_box :: node where
  "add_course_box = el ''button'' [''courseBox'', ''courseBox-new''] [] [Text ''Add a course'']"

definition course_list :: node where
  "course_list =
     el ''div'' [''courseList''] []
       [el ''div'' [''courseList--term''] [] [Text '' Fall 2024 ''],
        el ''div'' [''courseList--coursesForTerm''] [] [course_box, add_course_box]]"

definition root_page :: "node list" where
  "root_page =
     [el ''html'' [] []
        [el ''body'' [] []
           [el ''form'' [] [(''action'', ''/login'')] [token_field],
            el ''h1'' [''pageHeading''] [] [Text ''Your Courses''],
            course_list]]]"

text \<open>A root page without the token field, and one whose term label has no container.\<close>

definition root_page_no_token :: "node list" where
  "root_page_no_token =
     [el ''html'' [] [] [el ''body'' [] [] [el ''form'' [] [(''action'', ''/login'')] []]]]"

definition root_page_no_container :: "node list" where
  "root_page_no_container =
     [el ''h1'' [] [] [Text ''Your Courses''],
      el ''div'' [''courseList''] [] [el ''div'' [''courseList--term''] [] [Text ''Fall 2024'']]]"

definition assignment_row :: node where
  "assignment_row =
     el ''tr'' [] []
       [el ''th'' [] []
          [el ''button'' [''js-submitAssignment'']
             [(''data-assignment-id'', ''7''), (''data-ready-for-submission'', ''true''),
              (''data-post-url'', ''/courses/42/assignments/7/submissions''),
              (''data-assignment-title'', ''Homework 1''),
              (''data-show-late-submission-warning'', ''false'')] [Text ''Homework 1'']],
        el ''td'' [''submissionStatus''] []
          [el ''div'' [''submissionStatus--text''] [] [Text '' No Submission '']],
        el ''td'' [] []
          [el ''time'' [''submissionTimeChart--releaseDate'']
             [(''datetime'', ''2024-09-01 00:00:00 -0700'')] [],
           el ''time'' [''submissionTimeChart--dueDate'']
             [(''datetime'', ''2024-09-08 23:59:00 -0700'')] []]]"

definition course_page :: "node list" where
  "course_page =
     [el ''table'' [] [(''id'', ''assignments-student-table'')]
        [el ''thead'' [] [] [], el ''tbody'' [] [] [assignment_row]]]"

text \<open>
  A site that answers every \<^verbatim>\<open>GET\<close> with one response and every \<^verbatim>\<open>POST\<close> with another.
\<close>

fun last_request :: "request list \<Rightarrow> request" where
  "last_request [] = GET []"
| "last_request [r] = r"
| "last_request (r # rs) = last_request rs"

definition site :: "response \<Rightarrow> response \<Rightarrow> server" where
  "site on_get on_post history =
     (case last_request history of GET u \<Rightarrow> on_get | POST u d \<Rightarrow> on_post)"

definition ok_root :: response where
  "ok_root = \<lparr>status_code = 200, response.url = ''https://www.gradescope.com/'',
              soup = root_page\<rparr>"

definition to_account :: response where
  "to_account = \<lparr>status_code = 200, response.url = ''https://www.gradescope.com/account'',
                 soup = root_page\<rparr>"

definition to_login :: response where
  "to_login = \<lparr>status_code = 200, response.url = ''https://www.gradescope.com/login'',
               soup = root_page\<rparr>"

definition a_client :: Gradescope where
  "a_client = new_client (Some ''student@example.edu'') (Some ''secret'')"

definition to_both :: response where
  "to_both = \<lparr>status_code = 200,
               response.url = ''https://www.gradescope.com/login?return_to=/account'',
               soup = root_page\<rparr>"

definition to_elsewhere :: response where
  "to_elsewhere = \<lparr>status_code = 200, response.url = ''https://www.gradescope.com/saml'',
                   soup = root_page\<rparr>"

definition unavailable :: response where
  "unavailable = \<lparr>status_code = 503, response.url = ''https://status.gradescope.com/'',
                  soup = []\<rparr>"

definition no_token_root :: response where
  "no_token_root = \<lparr>status_code = 200, response.url = ''https://www.gradescope.com/'',
                    soup = root_page_no_token\<rparr>"

definition example_token :: tag where
  "example_token =
     \<lparr>name = ''input'', classes = [],
      attrs = map_of [(''type'', ''hidden''), (''name'', ''authenticity_token''),
                      (''value'', ''t0k3n'')],
      contents = [], next_siblings = []\<rparr>"

definition logged_client :: Gradescope where
  "logged_client = a_client\<lparr>logged_in := Some True\<rparr>"

definition a_course :: Course where
  "a_course = \<lparr>course_id = 42, Course.url = Some ''/courses/42'', term = ''Fall 2024'',
               short_name = ''CS101'', full_name = ''Intro to CS''\<rparr>"


definition course_page_no_button :: "node list" where
  "course_page_no_button =
     [el ''table'' [] [(''id'', ''assignments-student-table'')]
        [el ''tbody'' [] []
           [el ''tr'' [] []
              [el ''th'' [] [] [Text ''Homework 1''],
               el ''td'' [''submissionStatus''] []
                 [el ''div'' [''submissionStatus--text''] [] [Text ''Submitted'']]]]]]"

definition no_container_root :: response where
  "no_container_root = \<lparr>status_code = 200, response.url = ''https://www.gradescope.com/'',
                        soup = root_page_no_container\<rparr>"


definition ok_course :: response where
  "ok_course = \<lparr>status_code = 200, response.url = ''https://www.gradescope.com/courses/42'',
                soup = course_page\<rparr>"

definition no_button_course :: response where
  "no_button_course =
     \<lparr>status_code = 200, response.url = ''https://www.gradescope.com/courses/42'',
      soup = course_page_no_button\<rparr>"

text \<open>
  A root page with two term labels followed by one container of courses, whose course links
  to \<^verbatim>\<open>/2024/courses/c1907\<close>; and a root page whose course links to
  \<^verbatim>\<open>/courses/new?from=7\<close>.
\<close>

definition two_term_page :: "node list" where
  "two_term_page =
     [el ''h1'' [] [] [Text ''Your Courses''],
      el ''div'' [''courseList''] []
        [el ''div'' [''courseList--term''] [] [Text ''Fall 2024''],
         el ''div'' [''courseList--term''] [] [Text ''Spring 2024''],
         el ''div'' [''courseList--coursesForTerm''] []
           [el ''a'' [''courseBox''] [(''href'', ''/2024/courses/c1907'')]
              [el ''h3'' [''courseBox--shortname''] [] [Text ''CS202''],
               el ''div'' [''courseBox--name''] [] [Text ''Algorithms'']]]]]"


text \<open>
  A root page whose term label is followed by a plain \<^verbatim>\<open>div\<close> that holds the container of
  courses: the container is below a sibling of the label, and is no sibling itself.
\<close>

definition wrapped_container_page :: "node list" where
  "wrapped_container_page =
     [el ''h1'' [] [] [Text ''Your Courses''],
      el ''div'' [''courseList''] []
        [el ''div'' [''courseList--term''] [] [Text ''Fall 2024''],
         el ''div'' [''wrapper''] []
           [el ''div'' [''courseList--coursesForTerm''] [] [course_box]]]]"

definition wrapped_root :: response where
  "wrapped_root = \<lparr>status_code = 200, response.url = ''https://www.gradescope.com/'',
                   soup = wrapped_container_page\<rparr>"

definition two_term_root :: response where
  "two_term_root = \<lparr>status_code = 200, response.url = ''https://www.gradescope.com/'',
                    soup = two_term_page\<rparr>"


definition algorithms :: "string \<Rightarrow> Course" where
  "algorithms term_name =
     \<lparr>course_id = 1907, Course.url = Some ''/2024/courses/c1907'', term = term_name,
      short_name = ''CS202'', full_name = ''Algorithms''\<rparr>"

section \<open>Properties\<close>

subsection \<open>Strings, sessions and the example site\<close>


lemma starts_with_iff: "starts_with a s \<longleftrightarrow> (\<exists>q. s = a @ q)"
  by (induction a s rule: starts_with.induct) auto

lemma contains_iff: "contains sub s \<longleftrightarrow> (\<exists>p q. s = p @ sub @ q)"
proof (induction s)
  case Nil
  then show ?case by auto
next
  case (Cons c cs)
  show ?case
  proof
    assume "contains sub (c # cs)"
    then consider "starts_with sub (c # cs)" | "contains sub cs" by auto
    then show "\<exists>p q. c # cs = p @ sub @ q"
    proof cases
      case 1
      then obtain q where "c # cs = sub @ q" by (auto simp: starts_with_iff)
      then have "c # cs = [] @ sub @ q" by simp
      then show ?thesis by blast
    next
      case 2
      then obtain p q where "cs = p @ sub @ q" using Cons.IH by auto
      then have "c # cs = (c # p) @ sub @ q" by simp
      then show ?thesis by blast
    qed
  next
    assume "\<exists>p q. c # cs = p @ sub @ q"
    then obtain p q where pq: "c # cs = p @ sub @ q" by auto
    show "contains sub (c # cs)"
    proof (cases p)
      case Nil
      then have "starts_with sub (c # cs)" using pq by (auto simp: starts_with_iff)
      then show ?thesis by simp
    next
      case (Cons a p')
      then have "cs = p' @ sub @ q" using pq by simp
      then have "contains sub cs" using Cons.IH by blast
      then show ?thesis by simp
    qed
  qed
qed

lemma contains_infix: "contains sub (p @ sub @ q)"
  by (auto simp: contains_iff)

lemma last_request_append: "rs \<noteq> [] \<Longrightarrow> last_request (h @ rs) = last_request rs"
proof (induction h)
  case Nil
  then show ?case by simp
next
  case (Cons r h)
  then obtain x xs where "h @ rs = x # xs" by (cases "h @ rs") auto
  with Cons show ?case by simp
qed

lemma urljoin_course: "urljoin BASE_URL ''/courses/123'' = ''https://www.gradescope.com/courses/123''"
  by code_simp

lemma urljoin_scores:
  "urljoin BASE_URL (''/courses/123/assignments/456'' @ ''/scores.csv'')
     = ''https://www.gradescope.com/courses/123/assignments/456/scores.csv''"
  by code_simp

text \<open>
  Claim C8. A course stored with the relative URL \<^verbatim>\<open>/courses/123\<close> has the full URL
  \<^verbatim>\<open>https://www.gradescope.com/courses/123\<close>, and an assignment stored with the relative URL
  \<^verbatim>\<open>/courses/123/assignments/456\<close> has the grades URL
  \<^verbatim>\<open>https://www.gradescope.com/courses/123/assignments/456/scores.csv\<close>, whatever the other
  fields of the two records are.
\<close>

theorem C8_url_helpers:
  "get_url (c\<lparr>Course.url := Some ''/courses/123''\<rparr>) = ''https://www.gradescope.com/courses/123''
   \<and> get_grades_url (a\<lparr>Assignment.url := ''/courses/123/assignments/456''\<rparr>)
       = ''https://www.gradescope.com/courses/123/assignments/456/scores.csv''"
  using urljoin_course urljoin_scores by (simp add: get_url_def get_grades_url_def)

theorem C8_url_helpers_witness:
  "get_url \<lparr>course_id = 123, Course.url = Some ''/courses/123'', term = ''Fall 2024'',
            short_name = ''CS101'', full_name = ''Intro to CS''\<rparr>
     = ''https://www.gradescope.com/courses/123''
   \<and> get_grades_url \<lparr>assignment_id = 456, ready_for_submission = True,
         Assignment.url = ''/courses/123/assignments/456'', title = ''Homework 1'',
         late_submission_warning = False, submission_status = ''Submitted'',
         released_time = ''2024-09-01'', due_time = ''2024-09-08''\<rparr>
       = ''https://www.gradescope.com/courses/123/assignments/456/scores.csv''"
  using C8_url_helpers [of
      "\<lparr>course_id = 123, Course.url = None, term = ''Fall 2024'',
        short_name = ''CS101'', full_name = ''Intro to CS''\<rparr>"
      "\<lparr>assignment_id = 456, ready_for_submission = True,
         Assignment.url = [], title = ''Homework 1'',
         late_submission_warning = False, submission_status = ''Submitted'',
         released_time = ''2024-09-01'', due_time = ''2024-09-08''\<rparr>"]
  by simp

lemma session_get_eq:
  "session_get srv u self = (srv (session self @ [GET u]), self\<lparr>session := session self @ [GET u]\<rparr>)"
  by (simp add: session_get_def Let_def)

lemma session_post_eq:
  "session_post srv u d self
     = (srv (session self @ [POST u d]), self\<lparr>session := session self @ [POST u d]\<rparr>)"
  by (simp add: session_post_def Let_def)

lemma response_check_ok: "status_code r = 200 \<Longrightarrow> response_check r = Inr True"
  by (simp add: response_check_def)

lemma response_check_fail:
  "status_code r \<noteq> 200 \<Longrightarrow>
     response_check r = Inl (ResponseError (fetch_failure (status_code r) (response.url r)))"
  by (simp add: response_check_def fetch_failure_def)

lemma login_none:
  "username self = None \<or> password self = None \<Longrightarrow>
     login srv self = (Inl (TypeError ''The username or password cannot be None.''), self)"
  by (auto simp: login_def)

lemma login_get_fail:
  assumes "username self \<noteq> None" "password self \<noteq> None"
    and "session_get srv BASE_URL self = (r1, self1)" "status_code r1 \<noteq> 200"
  shows "login srv self = (Inl (ResponseError (fetch_failure (status_code r1) (response.url r1))), self1)"
  using assms by (simp add: login_def response_check_fail)

lemma login_no_token:
  assumes "username self \<noteq> None" "password self \<noteq> None"
    and "session_get srv BASE_URL self = (r1, self1)" "status_code r1 = 200"
    and "find_tag is_token_input (soup r1) = None"
  shows "login srv self = (Inl (UnboundLocalError ''authenticity_token''), self1)"
  using assms by (simp add: login_def response_check_ok is_token_input_def [abs_def])

lemma login_post_fail:
  assumes "username self \<noteq> None" "password self \<noteq> None"
    and "session_get srv BASE_URL self = (r1, self1)" "status_code r1 = 200"
    and "find_tag is_token_input (soup r1) = Some token_input"
    and "session_post srv LOGIN_URL (login_form self token_input) self1 = (r2, self2)"
    and "status_code r2 \<noteq> 200"
  shows "login srv self = (Inl (ResponseError (fetch_failure (status_code r2) (response.url r2))), self2)"
  using assms
  by (simp add: login_def response_check_ok response_check_fail is_token_input_def [abs_def]
      login_form_def Let_def)

lemma login_classify:
  assumes "username self \<noteq> None" "password self \<noteq> None"
    and "session_get srv BASE_URL self = (r1, self1)" "status_code r1 = 200"
    and "find_tag is_token_input (soup r1) = Some token_input"
    and "session_post srv LOGIN_URL (login_form self token_input) self1 = (r2, self2)"
    and "status_code r2 = 200"
  shows "login srv self =
     (if contains ''account'' (response.url r2) then (Inr True, self2\<lparr>logged_in := Some True\<rparr>)
      else if contains ''login'' (response.url r2) then (Inr False, self2\<lparr>logged_in := Some False\<rparr>)
      else (Inl (LoginError ''Unknown return URL.''), self2\<lparr>logged_in := Some False\<rparr>))"
  using assms
  by (simp add: login_def response_check_ok is_token_input_def [abs_def]
      login_form_def Let_def)


subsection \<open>Logging in and constructing the client\<close>

lemma login_returns_flag:
  "login srv self = (Inr b, self1) \<Longrightarrow> logged_in self1 = Some b"
  by (auto simp: login_def Let_def split: if_splits prod.splits sum.splits option.splits)

lemma login_no_type_error:
  "username self \<noteq> None \<Longrightarrow> password self \<noteq> None \<Longrightarrow> fst (login srv self) \<noteq> Inl (TypeError m)"
  by (auto simp: login_def Let_def response_check_def
      split: if_splits prod.splits sum.splits option.splits)

lemma login_sends_get_first:
  "username self \<noteq> None \<Longrightarrow> password self \<noteq> None \<Longrightarrow>
     \<exists>rest. session (snd (login srv self)) = session self @ GET BASE_URL # rest"
  by (auto simp: login_def Let_def session_get_eq session_post_eq
      split: if_splits prod.splits sum.splits option.splits)

lemma init_eq:
  "init srv username0 password0 =
     (case login srv (new_client username0 password0) of
        (Inl e, self1) \<Rightarrow> (Inl e, self1)
      | (Inr is_logged, self1) \<Rightarrow>
          (Inr (),
           self1\<lparr>log := log self1 @
              [if is_logged then (INFO, ''[Info] Login successful.'')
               else (WARNING, ''[Warning] Login failed.'')]\<rparr>))"
  by (simp add: init_def new_client_def Let_def)

lemma root_page_token: "find_tag is_token_input root_page = Some example_token"
  by (simp add: root_page_def el_def token_field_def find_tag_def is_token_input_def named_def
      has_attr_def example_token_def)

lemma root_page_no_token_none: "find_tag is_token_input root_page_no_token = None"
  by (simp add: root_page_no_token_def el_def find_tag_def is_token_input_def named_def
      has_attr_def)

lemma a_client_creds: "username a_client \<noteq> None" "password a_client \<noteq> None"
  by (simp_all add: a_client_def new_client_def)

lemma site_root_fetch:
  "session_get (site on_get on_post) BASE_URL a_client
     = (on_get, a_client\<lparr>session := [GET BASE_URL]\<rparr>)"
  by (simp add: session_get_eq site_def a_client_def new_client_def)

lemma site_login_post:
  "session_post (site on_get on_post) LOGIN_URL d (a_client\<lparr>session := [GET BASE_URL]\<rparr>)
     = (on_post, a_client\<lparr>session := [GET BASE_URL, POST LOGIN_URL d]\<rparr>)"
  by (simp add: session_post_eq site_def)

lemma ok_root_facts:
  "status_code ok_root = 200" "find_tag is_token_input (soup ok_root) = Some example_token"
  by (simp_all add: ok_root_def root_page_token)

text \<open>
  Against claim C1 as it is worded: a final URL may contain both substrings. The client
  tests for \<^verbatim>\<open>account\<close> first, so for such a URL \<^verbatim>\<open>login\<close> returns true although the URL
  contains \<^verbatim>\<open>login\<close>.
\<close>

theorem C1_counterexample:
  "contains ''login'' (response.url to_both)
   \<and> fst (login (site ok_root to_both) a_client) = Inr True
   \<and> logged_in (snd (login (site ok_root to_both) a_client)) = Some True"
proof -
  have "status_code to_both = 200" by (simp add: to_both_def)
  from login_classify [OF a_client_creds site_root_fetch ok_root_facts site_login_post this]
  show ?thesis by (simp add: to_both_def)
qed

text \<open>
  Claim C1, amended. When \<^verbatim>\<open>login\<close> gets as far as the answer to its POST (credentials that
  are not \<^verbatim>\<open>None\<close>, a root page with status 200 and a token field, a POST answered with
  status 200), the outcome depends on the final URL of that answer only: if the URL contains
  \<^verbatim>\<open>account\<close>, the call returns true and sets the logged-in flag; if it contains \<^verbatim>\<open>login\<close>
  and not \<^verbatim>\<open>account\<close>, the call returns false and clears the flag; if it contains neither,
  the call clears the flag and raises \<^verbatim>\<open>LoginError\<close> with the message
  \<^verbatim>\<open>Unknown return URL.\<close>
\<close>

theorem C1_login_classifies_final_url:
  assumes "username self \<noteq> None" and "password self \<noteq> None"
    and "session_get srv BASE_URL self = (r1, self1)" and "status_code r1 = 200"
    and "find_tag is_token_input (soup r1) = Some token_input"
    and "session_post srv LOGIN_URL (login_form self token_input) self1 = (r2, self2)"
    and "status_code r2 = 200"
  shows "(contains ''account'' (response.url r2) \<longrightarrow>
            login srv self = (Inr True, self2\<lparr>logged_in := Some True\<rparr>))
       \<and> (contains ''login'' (response.url r2) \<and> \<not> contains ''account'' (response.url r2) \<longrightarrow>
            login srv self = (Inr False, self2\<lparr>logged_in := Some False\<rparr>))
       \<and> (\<not> contains ''account'' (response.url r2) \<and> \<not> contains ''login'' (response.url r2) \<longrightarrow>
            login srv self = (Inl (LoginError ''Unknown return URL.''),
                              self2\<lparr>logged_in := Some False\<rparr>))"
  using login_classify [OF assms] by simp

text \<open>The three cases on the example site.\<close>

theorem C1_login_classifies_final_url_witness:
  "fst (login (site ok_root to_account) a_client) = Inr True
   \<and> logged_in (snd (login (site ok_root to_account) a_client)) = Some True
   \<and> fst (login (site ok_root to_login) a_client) = Inr False
   \<and> logged_in (snd (login (site ok_root to_login) a_client)) = Some False
   \<and> fst (login (site ok_root to_elsewhere) a_client) = Inl (LoginError ''Unknown return URL.'')
   \<and> logged_in (snd (login (site ok_root to_elsewhere) a_client)) = Some False"
proof -
  have a: "status_code to_account = 200" by (simp add: to_account_def)
  have l: "status_code to_login = 200" by (simp add: to_login_def)
  have e: "status_code to_elsewhere = 200" by (simp add: to_elsewhere_def)
  note A = C1_login_classifies_final_url
             [OF a_client_creds site_root_fetch ok_root_facts site_login_post a]
  note L = C1_login_classifies_final_url
             [OF a_client_creds site_root_fetch ok_root_facts site_login_post l]
  note E = C1_login_classifies_final_url
             [OF a_client_creds site_root_fetch ok_root_facts site_login_post e]
  have "fst (login (site ok_root to_account) a_client) = Inr True
        \<and> logged_in (snd (login (site ok_root to_account) a_client)) = Some True"
    using A by (simp add: to_account_def)
  moreover have "fst (login (site ok_root to_login) a_client) = Inr False
        \<and> logged_in (snd (login (site ok_root to_login) a_client)) = Some False"
    using L by (simp add: to_login_def)
  moreover have "fst (login (site ok_root to_elsewhere) a_client)
          = Inl (LoginError ''Unknown return URL.'')
        \<and> logged_in (snd (login (site ok_root to_elsewhere) a_client)) = Some False"
    using E by (simp add: to_elsewhere_def)
  ultimately show ?thesis by simp
qed

text \<open>
  Claim C5 does not hold of the code. When the root page has no token field, the variable
  \<^verbatim>\<open>authenticity_token\<close> is never assigned, and building the form raises
  \<^verbatim>\<open>UnboundLocalError\<close>: \<^verbatim>\<open>login\<close> ends there, and the only request the session has sent
  is the GET of the root page. No POST is sent.
\<close>

theorem C5_missing_token_stops_login:
  assumes "username self \<noteq> None" and "password self \<noteq> None"
    and "session_get srv BASE_URL self = (r1, self1)" and "status_code r1 = 200"
    and "find_tag is_token_input (soup r1) = None"
  shows "login srv self = (Inl (UnboundLocalError ''authenticity_token''), self1)
         \<and> session self1 = session self @ [GET BASE_URL]"
  using assms login_no_token [OF assms] by (auto simp: session_get_eq)

text \<open>A root page with a login form that has no token field.\<close>

theorem C5_missing_token_stops_login_witness:
  "login (site no_token_root to_account) a_client
     = (Inl (UnboundLocalError ''authenticity_token''), a_client\<lparr>session := [GET BASE_URL]\<rparr>)"
proof -
  have "status_code no_token_root = 200" "find_tag is_token_input (soup no_token_root) = None"
    by (simp_all add: no_token_root_def root_page_no_token_none)
  from C5_missing_token_stops_login [OF a_client_creds site_root_fetch this]
  show ?thesis by simp
qed

text \<open>
  Against claim C3 as it is worded: an empty user name and an empty password are sent to the
  site like any other credentials, and the constructor returns when the site answers the
  login with its login page.
\<close>

theorem C3_counterexample:
  "fst (init (site ok_root to_login) (Some []) (Some [])) = Inr ()"
proof -
  have c: "username (new_client (Some []) (Some [])) \<noteq> None"
          "password (new_client (Some []) (Some [])) \<noteq> None"
    by (simp_all add: new_client_def)
  have g: "session_get (site ok_root to_login) BASE_URL (new_client (Some []) (Some []))
     = (ok_root, (new_client (Some []) (Some []))\<lparr>session := [GET BASE_URL]\<rparr>)"
    by (simp add: session_get_eq site_def new_client_def)
  have p: "session_post (site ok_root to_login) LOGIN_URL
              (login_form (new_client (Some []) (Some [])) example_token)
              ((new_client (Some []) (Some []))\<lparr>session := [GET BASE_URL]\<rparr>)
     = (to_login, (new_client (Some []) (Some []))\<lparr>session := [GET BASE_URL,
          POST LOGIN_URL (login_form (new_client (Some []) (Some [])) example_token)]\<rparr>)"
    by (simp add: session_post_eq site_def)
  have l: "status_code to_login = 200" by (simp add: to_login_def)
  from login_classify [OF c g ok_root_facts p l]
  show ?thesis by (simp add: init_eq to_login_def)
qed

text \<open>
  Claim C3, amended. A user name or a password that is \<^verbatim>\<open>None\<close> makes the constructor raise
  \<^verbatim>\<open>TypeError\<close> with the message \<^verbatim>\<open>The username or password cannot be None.\<close>, and no
  request has been sent then. Credentials that are not \<^verbatim>\<open>None\<close>, the empty string included,
  never give that error: the constructor goes on to request the root page.
\<close>

theorem C3_none_credentials_raise_type_error:
  "(username0 = None \<or> password0 = None \<longrightarrow>
      init srv username0 password0
        = (Inl (TypeError ''The username or password cannot be None.''),
           new_client username0 password0))
   \<and> (username0 \<noteq> None \<and> password0 \<noteq> None \<longrightarrow>
        (\<forall>m. fst (init srv username0 password0) \<noteq> Inl (TypeError m))
        \<and> (\<exists>rest. session (snd (init srv username0 password0)) = GET BASE_URL # rest))"
proof (intro conjI impI allI)
  assume "username0 = None \<or> password0 = None"
  then have "username (new_client username0 password0) = None
             \<or> password (new_client username0 password0) = None"
    by (simp add: new_client_def)
  from login_none [OF this]
  show "init srv username0 password0
        = (Inl (TypeError ''The username or password cannot be None.''),
           new_client username0 password0)"
    by (simp add: init_eq)
next
  fix m
  assume "username0 \<noteq> None \<and> password0 \<noteq> None"
  then have c: "username (new_client username0 password0) \<noteq> None"
               "password (new_client username0 password0) \<noteq> None"
    by (simp_all add: new_client_def)
  from login_no_type_error [OF c, of srv m]
  show "fst (init srv username0 password0) \<noteq> Inl (TypeError m)"
    by (cases "login srv (new_client username0 password0)")
      (auto simp: init_eq split: sum.splits)
next
  assume "username0 \<noteq> None \<and> password0 \<noteq> None"
  then have c: "username (new_client username0 password0) \<noteq> None"
               "password (new_client username0 password0) \<noteq> None"
    by (simp_all add: new_client_def)
  from login_sends_get_first [OF c, of srv]
  show "\<exists>rest. session (snd (init srv username0 password0)) = GET BASE_URL # rest"
    by (cases "login srv (new_client username0 password0)")
      (auto simp: init_eq new_client_def split: sum.splits)
qed

text \<open>A missing user name, a missing password, and two empty strings.\<close>

theorem C3_none_credentials_raise_type_error_witness:
  "init (site ok_root to_account) None (Some ''secret'')
     = (Inl (TypeError ''The username or password cannot be None.''),
        new_client None (Some ''secret''))
   \<and> init (site ok_root to_account) (Some ''student@example.edu'') None
     = (Inl (TypeError ''The username or password cannot be None.''),
        new_client (Some ''student@example.edu'') None)
   \<and> (\<forall>m. fst (init (site ok_root to_account) (Some []) (Some [])) \<noteq> Inl (TypeError m))
   \<and> (\<exists>rest. session (snd (init (site ok_root to_account) (Some []) (Some [])))
                 = GET BASE_URL # rest)"
  using C3_none_credentials_raise_type_error [of None "Some ''secret''" "site ok_root to_account"]
    C3_none_credentials_raise_type_error [of "Some ''student@example.edu''" None
      "site ok_root to_account"]
    C3_none_credentials_raise_type_error [of "Some []" "Some []" "site ok_root to_account"]
  by simp

text \<open>
  Against claim C4 as it is worded: the constructor calls \<^verbatim>\<open>login\<close> without catching anything,
  so a root page that is not answered with status 200 makes the constructor raise.
\<close>

theorem C4_counterexample:
  "fst (init (site unavailable to_account) (Some ''student@example.edu'') (Some ''secret''))
     = Inl (ResponseError
         ''Failed to fetch the webpage. Status code: 503. URL: https://status.gradescope.com/'')"
proof -
  have s: "status_code unavailable \<noteq> 200" by (simp add: unavailable_def)
  have m: "fetch_failure (status_code unavailable) (response.url unavailable)
        = ''Failed to fetch the webpage. Status code: 503. URL: https://status.gradescope.com/''"
    unfolding unavailable_def by code_simp
  from login_get_fail [OF a_client_creds site_root_fetch s]
  show ?thesis by (simp add: init_eq m a_client_def)
qed

text \<open>
  Claim C4, amended. The constructor succeeds exactly when its call of \<^verbatim>\<open>login\<close> returns. The
  value returned is then the logged-in flag of the new object, and it is only logged: an
  information line for true, a warning for false. When \<^verbatim>\<open>login\<close> raises, the constructor
  raises the same exception.
\<close>

theorem C4_construction_follows_login:
  assumes "login srv (new_client username0 password0) = (r, self1)"
  shows "(\<forall>b. r = Inr b \<longrightarrow>
            logged_in self1 = Some b
            \<and> init srv username0 password0
                = (Inr (), self1\<lparr>log := log self1 @
                     [if b then (INFO, ''[Info] Login successful.'')
                      else (WARNING, ''[Warning] Login failed.'')]\<rparr>))
       \<and> (\<forall>e. r = Inl e \<longrightarrow> init srv username0 password0 = (Inl e, self1))"
  using assms login_returns_flag [of srv "new_client username0 password0" _ self1]
  by (auto simp: init_eq)

text \<open>A login that returns false, and a login that raises.\<close>

theorem C4_construction_follows_login_witness:
  "(\<exists>self1. init (site ok_root to_login) (Some ''student@example.edu'') (Some ''secret'')
       = (Inr (), self1\<lparr>log := log self1 @ [(WARNING, ''[Warning] Login failed.'')]\<rparr>)
       \<and> logged_in self1 = Some False)
   \<and> (\<exists>self1. init (site unavailable to_login) (Some ''student@example.edu'') (Some ''secret'')
       = (Inl (ResponseError (fetch_failure 503 ''https://status.gradescope.com/'')), self1))"
proof -
  have l: "status_code to_login = 200" by (simp add: to_login_def)
  from login_classify [OF a_client_creds site_root_fetch ok_root_facts site_login_post l]
  obtain self1 where 1: "login (site ok_root to_login) a_client = (Inr False, self1)"
    by (simp add: to_login_def)
  have s: "status_code unavailable \<noteq> 200" by (simp add: unavailable_def)
  from login_get_fail [OF a_client_creds site_root_fetch s]
  obtain self2 where 2: "login (site unavailable to_login) a_client
      = (Inl (ResponseError (fetch_failure 503 ''https://status.gradescope.com/'')), self2)"
    by (simp add: unavailable_def)
  from C4_construction_follows_login [OF 1 [unfolded a_client_def]]
       C4_construction_follows_login [OF 2 [unfolded a_client_def]]
  show ?thesis by auto
qed


subsection \<open>Retrieval without a login\<close>

lemma get_courses_not_logged_in:
  "logged_in self = Some False \<Longrightarrow>
     get_courses srv self = (Inl (NotLoggedInError ''Not logged in.''), self)"
  by (simp add: get_courses_def)

lemma get_term_courses_not_logged_in:
  "logged_in self = Some False \<Longrightarrow>
     get_term_courses srv m y self = (Inl (NotLoggedInError ''Not logged in.''), self)"
  by (simp add: get_term_courses_def get_courses_not_logged_in)

lemma get_assignments_not_logged_in:
  "logged_in self = Some False \<Longrightarrow>
     get_assignments srv course self = (Inl (NotLoggedInError ''Not logged in.''), self)"
  by (simp add: get_assignments_def)

lemma login_keeps_false:
  "login srv self = (r, self1) \<Longrightarrow> r \<noteq> Inr True \<Longrightarrow> logged_in self = Some False \<Longrightarrow>
     logged_in self1 = Some False"
  by (auto simp: login_def Let_def session_get_eq session_post_eq
      split: if_splits prod.splits sum.splits option.splits)

lemma get_courses_keeps_flag: "logged_in (snd (get_courses srv self)) = logged_in self"
  by (auto simp: get_courses_def session_get_eq split: option.splits sum.splits)

lemma get_term_courses_keeps_flag:
  "logged_in (snd (get_term_courses srv m y self)) = logged_in self"
  using get_courses_keeps_flag [of srv self]
  by (cases "get_courses srv self") (auto simp: get_term_courses_def Let_def split: sum.splits)

lemma get_assignments_keeps_flag:
  "logged_in (snd (get_assignments srv course self)) = logged_in self"
  by (auto simp: get_assignments_def session_get_eq split: option.splits sum.splits)

lemma run_call_keeps_false:
  assumes "run_call srv c self = (out, self1)" and "\<not> login_succeeded out"
    and "logged_in self = Some False"
  shows "logged_in self1 = Some False"
proof (cases c)
  case Login
  obtain r s where l: "login srv self = (r, s)" by (cases "login srv self")
  with assms Login have "r \<noteq> Inr True" "s = self1"
    by (auto simp: run_call_def login_succeeded_def split: sum.splits)
  with login_keeps_false [OF l] assms(3) show ?thesis by simp
next
  case GetCourses
  with assms get_courses_keeps_flag [of srv self] show ?thesis
    by (cases "get_courses srv self") (auto simp: run_call_def split: sum.splits)
next
  case (GetTermCourses m y)
  with assms get_term_courses_keeps_flag [of srv m y self] show ?thesis
    by (cases "get_term_courses srv m y self") (auto simp: run_call_def split: sum.splits)
next
  case (GetAssignments course)
  with assms get_assignments_keeps_flag [of srv course self] show ?thesis
    by (cases "get_assignments srv course self") (auto simp: run_call_def split: sum.splits)
qed

lemma run_calls_keep_false:
  "run_calls srv calls self = (outs, self1) \<Longrightarrow> \<not> list_ex login_succeeded outs \<Longrightarrow>
     logged_in self = Some False \<Longrightarrow> logged_in self1 = Some False"
proof (induction calls arbitrary: self outs self1)
  case Nil
  then show ?case by simp
next
  case (Cons c calls)
  obtain out s where c: "run_call srv c self = (out, s)" by (cases "run_call srv c self")
  obtain outs' s' where r: "run_calls srv calls s = (outs', s')"
    by (cases "run_calls srv calls s")
  from Cons.prems(1) c r have o: "outs = out # outs'" and s: "self1 = s'" by simp_all
  from o Cons.prems(2) have n: "\<not> login_succeeded out" "\<not> list_ex login_succeeded outs'"
    by simp_all
  from run_call_keeps_false [OF c n(1) Cons.prems(3)] have "logged_in s = Some False" .
  from Cons.IH [OF r [unfolded s [symmetric]] n(2) this] show ?case .
qed

text \<open>
  Claim C2. Take a client object that the constructor has built, and any calls made on it
  since. If neither the login of the constructor nor any later call of \<^verbatim>\<open>login\<close> returned
  true, then each of \<^verbatim>\<open>get_courses\<close>, \<^verbatim>\<open>get_term_courses\<close> and \<^verbatim>\<open>get_assignments\<close> raises
  \<^verbatim>\<open>NotLoggedInError\<close> and leaves the object as it was: in particular the session has sent
  no request.
\<close>

theorem C2_retrieval_requires_login:
  assumes "init srv username0 password0 = (Inr (), self0)"
    and "fst (login srv (new_client username0 password0)) \<noteq> Inr True"
    and "run_calls srv calls self0 = (outs, self)"
    and "\<not> list_ex login_succeeded outs"
  shows "get_courses srv self = (Inl (NotLoggedInError ''Not logged in.''), self)
       \<and> get_term_courses srv current_month current_year self
           = (Inl (NotLoggedInError ''Not logged in.''), self)
       \<and> get_assignments srv course self = (Inl (NotLoggedInError ''Not logged in.''), self)"
proof -
  obtain r s where l: "login srv (new_client username0 password0) = (r, s)"
    by (cases "login srv (new_client username0 password0)")
  with assms(1) obtain b where b: "r = Inr b" and s: "logged_in self0 = logged_in s"
    by (cases r) (auto simp: init_eq)
  from assms(2) l b have "b = False" by simp
  with login_returns_flag [OF l [unfolded b]] s have "logged_in self0 = Some False" by simp
  from run_calls_keep_false [OF assms(3) assms(4) this] have "logged_in self = Some False" .
  then show ?thesis
    by (simp add: get_courses_not_logged_in get_term_courses_not_logged_in
        get_assignments_not_logged_in)
qed

lemma login_on_site:
  assumes "username self \<noteq> None" and "password self \<noteq> None" and "status_code on_post = 200"
  shows "fst (login (site ok_root on_post) self)
     = (if contains ''account'' (response.url on_post) then Inr True
        else if contains ''login'' (response.url on_post) then Inr False
        else Inl (LoginError ''Unknown return URL.''))"
proof -
  have g: "session_get (site ok_root on_post) BASE_URL self
             = (ok_root, self\<lparr>session := session self @ [GET BASE_URL]\<rparr>)"
    by (simp add: session_get_eq site_def last_request_append)
  have p: "session_post (site ok_root on_post) LOGIN_URL (login_form self example_token)
             (self\<lparr>session := session self @ [GET BASE_URL]\<rparr>)
           = (on_post, self\<lparr>session := session self @ [GET BASE_URL] @
                [POST LOGIN_URL (login_form self example_token)]\<rparr>)"
    by (simp add: session_post_eq site_def last_request_append)
  from login_classify [OF assms(1,2) g ok_root_facts p assms(3)] show ?thesis by simp
qed

text \<open>
  A site that answers every login with its login page: the constructor's login returns
  false, and so does a second login after a first attempt to list the courses.
\<close>

theorem C2_retrieval_requires_login_witness:
  "get_courses (site ok_root to_login)
      (snd (run_calls (site ok_root to_login) [GetCourses, Login]
         (snd (init (site ok_root to_login) (Some ''student@example.edu'') (Some ''secret'')))))
     = (Inl (NotLoggedInError ''Not logged in.''),
        snd (run_calls (site ok_root to_login) [GetCourses, Login]
         (snd (init (site ok_root to_login) (Some ''student@example.edu'') (Some ''secret'')))))
   \<and> get_assignments (site ok_root to_login) a_course
      (snd (run_calls (site ok_root to_login) [GetCourses, Login]
         (snd (init (site ok_root to_login) (Some ''student@example.edu'') (Some ''secret'')))))
     = (Inl (NotLoggedInError ''Not logged in.''),
        snd (run_calls (site ok_root to_login) [GetCourses, Login]
         (snd (init (site ok_root to_login) (Some ''student@example.edu'') (Some ''secret'')))))"
proof -
  let ?S = "site ok_root to_login"
  let ?u = "Some ''student@example.edu''" and ?p = "Some ''secret''"
  have l200: "status_code to_login = 200" by (simp add: to_login_def)
  have c: "username (new_client ?u ?p) \<noteq> None" "password (new_client ?u ?p) \<noteq> None"
    by (simp_all add: new_client_def)
  have lg: "fst (login ?S (new_client ?u ?p)) = Inr False"
    using login_on_site [OF c l200] by (simp add: to_login_def)
  have i: "init ?S ?u ?p = (Inr (), snd (init ?S ?u ?p))"
    using lg by (cases "login ?S (new_client ?u ?p)") (auto simp: init_eq)
  have cred: "username (snd (init ?S ?u ?p)) \<noteq> None" "password (snd (init ?S ?u ?p)) \<noteq> None"
    and flag: "logged_in (snd (init ?S ?u ?p)) = Some False"
    using lg login_returns_flag [of ?S "new_client ?u ?p" False]
    by (cases "login ?S (new_client ?u ?p)";
        auto simp: init_eq login_def Let_def session_get_eq session_post_eq new_client_def
          split: if_splits sum.splits option.splits)+
  let ?s0 = "snd (init ?S ?u ?p)"
  have gc: "get_courses ?S ?s0 = (Inl (NotLoggedInError ''Not logged in.''), ?s0)"
    using flag by (rule get_courses_not_logged_in)
  have lg2: "fst (login ?S ?s0) = Inr False"
    using login_on_site [OF cred l200] by (simp add: to_login_def)
  have outs: "\<not> list_ex login_succeeded (fst (run_calls ?S [GetCourses, Login] ?s0))"
    using gc lg2
    by (cases "login ?S ?s0") (auto simp: run_call_def login_succeeded_def)
  have r: "run_calls ?S [GetCourses, Login] ?s0
             = (fst (run_calls ?S [GetCourses, Login] ?s0), snd (run_calls ?S [GetCourses, Login] ?s0))"
    by simp
  have n: "fst (login ?S (new_client ?u ?p)) \<noteq> Inr True" using lg by simp
  from C2_retrieval_requires_login [OF i n r outs, of 9 2024 a_course]
  show ?thesis by simp
qed

subsection \<open>Responses with a status other than 200\<close>

lemma fetch_failure_contains:
  "contains (str_int code) (fetch_failure code u) \<and> contains u (fetch_failure code u)"
proof
  show "contains (str_int code) (fetch_failure code u)"
    unfolding fetch_failure_def by (rule contains_infix)
  have "fetch_failure code u
      = (''Failed to fetch the webpage. Status code: '' @ str_int code @ ''. URL: '') @ u @ []"
    by (simp add: fetch_failure_def)
  then show "contains u (fetch_failure code u)" by (simp only: contains_infix)
qed

lemma get_courses_fetch_fail:
  assumes "logged_in self = Some True"
    and "session_get srv BASE_URL self = (r, self1)" and "status_code r \<noteq> 200"
  shows "get_courses srv self
     = (Inl (ResponseError (fetch_failure (status_code r) (response.url r))), self1)"
  using assms by (simp add: get_courses_def response_check_fail)

lemma get_assignments_fetch_fail:
  assumes "logged_in self = Some True"
    and "session_get srv (get_url course) self = (r, self1)" and "status_code r \<noteq> 200"
  shows "get_assignments srv course self
     = (Inl (ResponseError (fetch_failure (status_code r) (response.url r))), self1)"
  using assms by (simp add: get_assignments_def response_check_fail)

text \<open>
  Against claim C7 as it is worded: the message names the URL of the response, which after
  a redirect is not the URL that was requested. Here the root page is requested, the answer
  with status 503 comes from another host, and the message does not contain the requested
  URL.
\<close>

theorem C7_counterexample:
  "get_courses (site unavailable to_account) logged_client
     = (Inl (ResponseError
          ''Failed to fetch the webpage. Status code: 503. URL: https://status.gradescope.com/''),
        logged_client\<lparr>session := [GET BASE_URL]\<rparr>)
   \<and> \<not> contains BASE_URL
        ''Failed to fetch the webpage. Status code: 503. URL: https://status.gradescope.com/''"
proof -
  have f: "logged_in logged_client = Some True" by (simp add: logged_client_def)
  have g: "session_get (site unavailable to_account) BASE_URL logged_client
      = (unavailable, logged_client\<lparr>session := [GET BASE_URL]\<rparr>)"
    by (simp add: session_get_eq site_def logged_client_def a_client_def new_client_def)
  have s: "status_code unavailable \<noteq> 200" by (simp add: unavailable_def)
  have m: "fetch_failure (status_code unavailable) (response.url unavailable)
        = ''Failed to fetch the webpage. Status code: 503. URL: https://status.gradescope.com/''"
    unfolding unavailable_def by code_simp
  have n: "\<not> contains BASE_URL
        ''Failed to fetch the webpage. Status code: 503. URL: https://status.gradescope.com/''"
    by code_simp
  from get_courses_fetch_fail [OF f g s] m n show ?thesis by simp
qed

text \<open>
  Claim C7, amended. Whenever one of the fetches of \<^verbatim>\<open>login\<close> (the GET of the root page, the
  POST of the form), of \<^verbatim>\<open>get_courses\<close> or of \<^verbatim>\<open>get_assignments\<close> is answered with a status
  other than 200, the operation raises \<^verbatim>\<open>ResponseError\<close>, and the message contains the
  status code of the response and the final URL of the response.
\<close>

theorem C7_non_200_gives_response_error:
  "(username self \<noteq> None \<and> password self \<noteq> None
      \<and> session_get srv BASE_URL self = (r, self1) \<and> status_code r \<noteq> 200 \<longrightarrow>
      login srv self
        = (Inl (ResponseError (fetch_failure (status_code r) (response.url r))), self1))
   \<and> (username self \<noteq> None \<and> password self \<noteq> None
      \<and> session_get srv BASE_URL self = (r1, self1) \<and> status_code r1 = 200
      \<and> find_tag is_token_input (soup r1) = Some token_input
      \<and> session_post srv LOGIN_URL (login_form self token_input) self1 = (r, self2)
      \<and> status_code r \<noteq> 200 \<longrightarrow>
      login srv self
        = (Inl (ResponseError (fetch_failure (status_code r) (response.url r))), self2))
   \<and> (logged_in self = Some True
      \<and> session_get srv BASE_URL self = (r, self1) \<and> status_code r \<noteq> 200 \<longrightarrow>
      get_courses srv self
        = (Inl (ResponseError (fetch_failure (status_code r) (response.url r))), self1))
   \<and> (logged_in self = Some True
      \<and> session_get srv (get_url course) self = (r, self1) \<and> status_code r \<noteq> 200 \<longrightarrow>
      get_assignments srv course self
        = (Inl (ResponseError (fetch_failure (status_code r) (response.url r))), self1))
   \<and> contains (str_int (status_code r)) (fetch_failure (status_code r) (response.url r))
   \<and> contains (response.url r) (fetch_failure (status_code r) (response.url r))"
  using fetch_failure_contains [of "status_code r" "response.url r"]
  by (auto simp: login_get_fail login_post_fail get_courses_fetch_fail
      get_assignments_fetch_fail)


text \<open>The four fetches, each answered with status 503.\<close>

theorem C7_non_200_gives_response_error_witness:
  "login (site unavailable to_account) a_client
     = (Inl (ResponseError (fetch_failure 503 ''https://status.gradescope.com/'')),
        a_client\<lparr>session := [GET BASE_URL]\<rparr>)
   \<and> login (site ok_root unavailable) a_client
     = (Inl (ResponseError (fetch_failure 503 ''https://status.gradescope.com/'')),
        a_client\<lparr>session := [GET BASE_URL,
           POST LOGIN_URL (login_form a_client example_token)]\<rparr>)
   \<and> get_courses (site unavailable to_account) logged_client
     = (Inl (ResponseError (fetch_failure 503 ''https://status.gradescope.com/'')),
        logged_client\<lparr>session := [GET BASE_URL]\<rparr>)
   \<and> get_assignments (site unavailable to_account) a_course logged_client
     = (Inl (ResponseError (fetch_failure 503 ''https://status.gradescope.com/'')),
        logged_client\<lparr>session := [GET (get_url a_course)]\<rparr>)
   \<and> contains ''503'' (fetch_failure 503 ''https://status.gradescope.com/'')
   \<and> contains ''https://status.gradescope.com/''
        (fetch_failure 503 ''https://status.gradescope.com/'')"
proof -
  have u: "status_code unavailable = 503" "response.url unavailable = ''https://status.gradescope.com/''"
    by (simp_all add: unavailable_def)
  have n: "str_int 503 = ''503''" by code_simp
  have f: "logged_in logged_client = Some True" by (simp add: logged_client_def)
  have g1: "session_get (site unavailable to_account) BASE_URL logged_client
      = (unavailable, logged_client\<lparr>session := [GET BASE_URL]\<rparr>)"
    by (simp add: session_get_eq site_def logged_client_def a_client_def new_client_def)
  have g2: "session_get (site unavailable to_account) (get_url a_course) logged_client
      = (unavailable, logged_client\<lparr>session := [GET (get_url a_course)]\<rparr>)"
    by (simp add: session_get_eq site_def logged_client_def a_client_def new_client_def)
  note A = C7_non_200_gives_response_error
    [where self = a_client and srv = "site unavailable to_account" and r = unavailable
       and ?self1.0 = "a_client\<lparr>session := [GET BASE_URL]\<rparr>"]
  note B = C7_non_200_gives_response_error
    [where self = a_client and srv = "site ok_root unavailable" and r = unavailable
       and ?r1.0 = ok_root and ?self1.0 = "a_client\<lparr>session := [GET BASE_URL]\<rparr>"
       and token_input = example_token
       and ?self2.0 = "a_client\<lparr>session := [GET BASE_URL,
           POST LOGIN_URL (login_form a_client example_token)]\<rparr>"]
  note C = C7_non_200_gives_response_error
    [where self = logged_client and srv = "site unavailable to_account" and r = unavailable
       and ?self1.0 = "logged_client\<lparr>session := [GET BASE_URL]\<rparr>"]
  note D = C7_non_200_gives_response_error
    [where self = logged_client and srv = "site unavailable to_account" and r = unavailable
       and course = a_course
       and ?self1.0 = "logged_client\<lparr>session := [GET (get_url a_course)]\<rparr>"]
  have 1: "login (site unavailable to_account) a_client
     = (Inl (ResponseError (fetch_failure 503 ''https://status.gradescope.com/'')),
        a_client\<lparr>session := [GET BASE_URL]\<rparr>)"
    using A a_client_creds site_root_fetch [of unavailable to_account] u by simp
  have 2: "login (site ok_root unavailable) a_client
     = (Inl (ResponseError (fetch_failure 503 ''https://status.gradescope.com/'')),
        a_client\<lparr>session := [GET BASE_URL,
           POST LOGIN_URL (login_form a_client example_token)]\<rparr>)"
    using B a_client_creds site_root_fetch [of ok_root unavailable] ok_root_facts
      site_login_post [of ok_root unavailable "login_form a_client example_token"] u
    by simp
  have 3: "get_courses (site unavailable to_account) logged_client
     = (Inl (ResponseError (fetch_failure 503 ''https://status.gradescope.com/'')),
        logged_client\<lparr>session := [GET BASE_URL]\<rparr>)"
    using C f g1 u by simp
  have 4: "get_assignments (site unavailable to_account) a_course logged_client
     = (Inl (ResponseError (fetch_failure 503 ''https://status.gradescope.com/'')),
        logged_client\<lparr>session := [GET (get_url a_course)]\<rparr>)"
    using D f g2 u by simp
  have 5: "contains ''503'' (fetch_failure 503 ''https://status.gradescope.com/'')
     \<and> contains ''https://status.gradescope.com/''
        (fetch_failure 503 ''https://status.gradescope.com/'')"
    using A u n by simp
  from 1 2 3 4 5 show ?thesis by simp
qed


subsection \<open>Parsing the course identifier\<close>

lemma isdigit_not_space: "isdigit c \<Longrightarrow> \<not> int_space c"
  by (auto simp: isdigit_def int_space_def)

lemma dropWhile_space_digits: "list_all isdigit ds \<Longrightarrow> dropWhile int_space ds = ds"
  by (cases ds) (auto simp: isdigit_not_space)

lemma strip_space_digits:
  "list_all isdigit ds \<Longrightarrow> rev (dropWhile int_space (rev (dropWhile int_space ds))) = ds"
proof -
  assume d: "list_all isdigit ds"
  then have "list_all isdigit (rev ds)" by (simp add: list_all_iff)
  then have "dropWhile int_space (rev ds) = rev ds" by (rule dropWhile_space_digits)
  with d show ?thesis by (simp add: dropWhile_space_digits)
qed

lemma digit_groups_digits: "list_all isdigit ds \<Longrightarrow> ds \<noteq> [] \<Longrightarrow> digit_groups ds = Some ds"
proof (induction ds rule: digit_groups.induct)
  case 1
  then show ?case by simp
next
  case (2 c)
  then show ?case by simp
next
  case (3 c d cs)
  from "3.prems" have "isdigit d" by simp
  then have "d \<noteq> CHR ''_''" by (auto simp: isdigit_def)
  with 3 show ?case by simp
qed

lemma digits_unsigned:
  "list_all isdigit ds \<Longrightarrow> \<not> starts_with ''-'' ds \<and> \<not> starts_with ''+'' ds"
  by (cases ds) (auto simp: isdigit_def)

lemma py_int_digits:
  assumes "list_all isdigit ds"
  shows "py_int ds = (if ds = [] \<or> int_max_str_digits < length ds then Inl (ValueError ds)
                      else Inr (decimal_value ds))"
proof (cases "ds = []")
  case True
  then show ?thesis by (simp add: py_int_def)
next
  case False
  with assms digit_groups_digits [OF assms] digits_unsigned [OF assms] show ?thesis
    by (simp add: py_int_def strip_space_digits Let_def)
qed

lemma findall_digits_all: "list_all isdigit (findall_digits text)"
  by (simp add: findall_digits_def list_all_iff)

lemma parse_int_eq:
  "parse_int text =
     (if findall_digits text = [] \<or> int_max_str_digits < length (findall_digits text)
      then Inl (ValueError (findall_digits text))
      else Inr (decimal_value (findall_digits text)))"
  by (simp add: parse_int_def py_int_digits [OF findall_digits_all])



lemma make_course_Inr:
  assumes "make_course t b = Inr c"
  shows "Course.url c = attrs b ''href'' \<and> term c = t \<and> href_digits b \<noteq> []
         \<and> course_id c = decimal_value (href_digits b) \<and> has_names b"
  using assms
  by (auto simp: make_course_def parse_int_eq href_digits_def has_names_def
      split: if_splits option.splits sum.splits)

lemma make_course_Inl:
  "make_course t b = Inl e \<Longrightarrow> (\<exists>m. e = ValueError m) \<or> (\<exists>m. e = AttributeError m)"
  by (auto simp: make_course_def parse_int_eq split: if_splits option.splits sum.splits)

lemma make_course_no_names: "\<not> has_names b \<Longrightarrow> \<exists>e. make_course t b = Inl e"
  by (auto simp: make_course_def has_names_def split: option.splits sum.splits)

subsection \<open>The loops of the course listing\<close>

lemma boxes_loop_pairs: "boxes_loop t bs cs = pairs_loop (map (Pair t) bs) cs"
  by (induction bs arbitrary: cs) (auto split: sum.splits)

lemma pairs_loop_append:
  "pairs_loop (xs @ ys) cs =
     (case pairs_loop xs cs of Inl e \<Rightarrow> Inl e | Inr cs1 \<Rightarrow> pairs_loop ys cs1)"
  by (induction xs arbitrary: cs) (auto split: sum.splits)

lemma terms_loop_pairs: "terms_loop terms cs = pairs_loop (concat (map term_boxes terms)) cs"
proof (induction terms arbitrary: cs)
  case Nil
  then show ?case by simp
next
  case (Cons t terms)
  show ?case
  proof (cases "find_next_sibling (has_class ''courseList--coursesForTerm'') t")
    case None
    then show ?thesis by (simp add: Cons.IH term_boxes_def)
  next
    case (Some container)
    then show ?thesis
      by (simp add: Cons.IH term_boxes_def boxes_loop_pairs pairs_loop_append Let_def
          split: sum.splits)
  qed
qed

lemma terms_loop_skip:
  "terms_loop terms cs = terms_loop (filter has_container terms) cs"
  by (induction terms arbitrary: cs) (auto simp: has_container_def Let_def split: sum.splits)

lemma pairs_loop_filter: "pairs_loop xs cs = pairs_loop (filter is_anchor xs) cs"
  by (induction xs arbitrary: cs) (auto simp: is_anchor_def split: sum.splits)

lemma pairs_loop_Inr:
  "pairs_loop xs cs = Inr cs1 \<Longrightarrow>
     \<exists>ys. cs1 = cs @ ys
          \<and> map Inr ys = map (\<lambda>tb. make_course (fst tb) (snd tb)) (filter is_anchor xs)"
proof (induction xs arbitrary: cs)
  case Nil
  then show ?case by simp
next
  case (Cons x xs)
  show ?case
  proof (cases "is_anchor x")
    case False
    with Cons.prems have "pairs_loop xs cs = Inr cs1" by (simp add: is_anchor_def)
    from Cons.IH [OF this] False show ?thesis by simp
  next
    case True
    with Cons.prems obtain c where c: "make_course (fst x) (snd x) = Inr c"
      and r: "pairs_loop xs (cs @ [c]) = Inr cs1"
      by (auto simp: is_anchor_def split: sum.splits)
    from Cons.IH [OF r] obtain ys where "cs1 = (cs @ [c]) @ ys"
      and "map Inr ys = map (\<lambda>tb. make_course (fst tb) (snd tb)) (filter is_anchor xs)"
      by blast
    with c True have "cs1 = cs @ (c # ys)
      \<and> map Inr (c # ys) = map (\<lambda>tb. make_course (fst tb) (snd tb)) (filter is_anchor (x # xs))"
      by simp
    then show ?thesis by blast
  qed
qed

lemma pairs_loop_succeeds:
  "list_all (\<lambda>tb. is_anchor tb \<longrightarrow> (\<exists>c. make_course (fst tb) (snd tb) = Inr c)) xs \<Longrightarrow>
     \<exists>cs1. pairs_loop xs cs = Inr cs1"
  by (induction xs arbitrary: cs) (auto simp: is_anchor_def split: sum.splits)

lemma pairs_loop_fails:
  "list_ex (\<lambda>tb. is_anchor tb \<and> (\<exists>e. make_course (fst tb) (snd tb) = Inl e)) xs \<Longrightarrow>
     \<exists>e. pairs_loop xs cs = Inl e \<and> ((\<exists>m. e = ValueError m) \<or> (\<exists>m. e = AttributeError m))"
proof (induction xs arbitrary: cs)
  case Nil
  then show ?case by simp
next
  case (Cons x xs)
  show ?case
  proof (cases "is_anchor x")
    case False
    with Cons.prems have
      "list_ex (\<lambda>tb. is_anchor tb \<and> (\<exists>e. make_course (fst tb) (snd tb) = Inl e)) xs"
      by simp
    from Cons.IH [OF this, of cs] False show ?thesis by (simp add: is_anchor_def)
  next
    case True
    show ?thesis
    proof (cases "make_course (fst x) (snd x)")
      case (Inl e)
      with True make_course_Inl [OF Inl] show ?thesis by (simp add: is_anchor_def)
    next
      case (Inr c)
      with Cons.prems have
        "list_ex (\<lambda>tb. is_anchor tb \<and> (\<exists>e. make_course (fst tb) (snd tb) = Inl e)) xs"
        by simp
      from Cons.IH [OF this, of "cs @ [c]"] True Inr show ?thesis by (simp add: is_anchor_def)
    qed
  qed
qed

lemma get_courses_visited:
  assumes "logged_in self = Some True"
    and "session_get srv BASE_URL self = (r, self1)" and "status_code r = 200"
    and "visited_boxes (soup r) = Some boxes"
  shows "get_courses srv self =
     (case pairs_loop boxes [] of
        Inl e \<Rightarrow> (Inl e, self1)
      | Inr courses \<Rightarrow>
          (Inr courses, self1\<lparr>log := log self1 @ [(INFO, found_message (length courses))]\<rparr>))"
  using assms
  by (auto simp: get_courses_def response_check_ok visited_boxes_def term_labels_def
      is_heading_def [abs_def] is_course_list_def [abs_def] terms_loop_pairs found_message_def
      split: option.splits sum.splits)

lemma get_courses_no_heading:
  assumes "logged_in self = Some True"
    and "session_get srv BASE_URL self = (r, self1)" and "status_code r = 200"
    and "find_tag is_heading (soup r) = None"
  shows "get_courses srv self = (Inl (ResponseError no_heading_message), self1)"
  using assms
  by (simp add: get_courses_def response_check_ok is_heading_def [abs_def] no_heading_message_def)

lemma get_courses_no_course_list:
  assumes "logged_in self = Some True"
    and "session_get srv BASE_URL self = (r, self1)" and "status_code r = 200"
    and "find_tag is_heading (soup r) = Some current_heading"
    and "find_next_sibling is_course_list current_heading = None"
  shows "get_courses srv self = (Inl (AttributeError ''find_all''), self1)"
  using assms
  by (simp add: get_courses_def response_check_ok is_heading_def [abs_def]
      is_course_list_def [abs_def])



subsection \<open>The example sites with a logged-in client\<close>

text \<open>The logged-in example client on the example sites.\<close>

lemma site_fetch_logged:
  "session_get (site on_get on_post) u logged_client
     = (on_get, logged_client\<lparr>session := [GET u]\<rparr>)"
  by (simp add: session_get_eq site_def logged_client_def a_client_def new_client_def)

lemma logged_client_flag: "logged_in logged_client = Some True"
  by (simp add: logged_client_def)

lemma example_courses:
  "get_courses (site ok_root to_account) logged_client
   = (Inr [a_course], logged_client\<lparr>session := [GET BASE_URL],
         log := [(INFO, ''[Info] Found 1 courses.'')]\<rparr>)"
  by code_simp

subsection \<open>Missing landmarks\<close>

lemma py_int_Inl: "py_int s = Inl e \<Longrightarrow> lookup_error e"
  by (auto simp: py_int_def Let_def lookup_error_def split: option.splits if_splits)

lemma subscript_Inl: "subscript x key = Inl e \<Longrightarrow> lookup_error e"
  by (auto simp: subscript_def lookup_error_def split: option.splits)

lemma deref_Inl: "deref a x = Inl e \<Longrightarrow> lookup_error e"
  by (auto simp: deref_def lookup_error_def split: option.splits)

lemma and_then_Inl:
  "and_then m f = Inl e \<Longrightarrow> m = Inl e \<or> (\<exists>v. m = Inr v \<and> f v = Inl e)"
  by (cases m) (auto simp: and_then_def)

lemma and_then_Inr:
  "and_then m f = Inr y \<Longrightarrow> \<exists>v. m = Inr v \<and> f v = Inr y"
  by (cases m) (auto simp: and_then_def)

lemma subscript_Inr: "subscript x key = Inr v \<Longrightarrow> x \<noteq> None"
  by (auto simp: subscript_def split: option.splits)

lemma deref_Inr: "deref a x = Inr t \<Longrightarrow> x = Some t"
  by (auto simp: deref_def split: option.splits)

lemma parse_row_Inl: "parse_row row = Inl e \<Longrightarrow> lookup_error e"
  unfolding parse_row_def Let_def
  by (auto dest!: and_then_Inl dest: subscript_Inl deref_Inl py_int_Inl)

lemma parse_row_Inr:
  assumes "parse_row row = Inr a"
  shows "has_button row \<and> has_status row \<and> has_times row"
proof -
  from assms [unfolded parse_row_def Let_def]
  show ?thesis
    unfolding has_button_def has_status_def has_times_def
    by (auto dest!: and_then_Inr subscript_Inr deref_Inr)
qed

lemma parse_row_incomplete:
  "\<not> has_button row \<or> \<not> has_status row \<or> \<not> has_times row \<Longrightarrow>
     \<exists>e. parse_row row = Inl e \<and> lookup_error e"
  using parse_row_Inr [of row] parse_row_Inl [of row] by (cases "parse_row row") auto

lemma rows_loop_fails:
  "list_ex (\<lambda>row. \<exists>e. parse_row row = Inl e) rows \<Longrightarrow>
     \<exists>e. rows_loop rows acc = Inl e \<and> lookup_error e"
proof (induction rows arbitrary: acc)
  case Nil
  then show ?case by simp
next
  case (Cons row rows)
  show ?case
  proof (cases "parse_row row")
    case (Inl e)
    with parse_row_Inl [OF Inl] show ?thesis by simp
  next
    case (Inr a)
    with Cons.prems have "list_ex (\<lambda>row. \<exists>e. parse_row row = Inl e) rows" by simp
    from Cons.IH [OF this, of "acc @ [a]"] Inr show ?thesis by simp
  qed
qed

lemma get_assignments_rows:
  assumes "logged_in self = Some True"
    and "session_get srv (get_url course) self = (r, self1)" and "status_code r = 200"
    and "table_rows (soup r) = Some rows"
  shows "get_assignments srv course self =
     (case rows_loop rows [] of
        Inl e \<Rightarrow> (Inl e, self1)
      | Inr assignments \<Rightarrow> (Inr assignments, self1))"
  using assms
  by (auto simp: get_assignments_def response_check_ok table_rows_def
      is_assignments_table_def [abs_def] split: option.splits sum.splits)

lemma get_assignments_no_table:
  assumes "logged_in self = Some True"
    and "session_get srv (get_url course) self = (r, self1)" and "status_code r = 200"
    and "find_tag is_assignments_table (soup r) = None"
  shows "get_assignments srv course self = (Inl (AttributeError ''find''), self1)"
  using assms
  by (simp add: get_assignments_def response_check_ok is_assignments_table_def [abs_def])

lemma get_assignments_no_tbody:
  assumes "logged_in self = Some True"
    and "session_get srv (get_url course) self = (r, self1)" and "status_code r = 200"
    and "find_tag is_assignments_table (soup r) = Some assignments_data"
    and "find_tag (named ''tbody'') (contents assignments_data) = None"
  shows "get_assignments srv course self = (Inl (AttributeError ''find_all''), self1)"
  using assms
  by (simp add: get_assignments_def response_check_ok is_assignments_table_def [abs_def])

text \<open>The example course page has one row; its fields are read from the button and the cells.\<close>

lemma example_assignments:
  "(case fst (get_assignments (site ok_course to_account) a_course logged_client) of
      Inl e \<Rightarrow> False
    | Inr assignments \<Rightarrow>
        map (\<lambda>a. (a ''assignment_id'', a ''ready_for_submission'', a ''url'',
                  a ''late_submission_warning'', a ''submission_status'', a ''due_time''))
          assignments
        = [(Some (VInt 7), Some (VBool True),
            Some (VStr ''/courses/42/assignments/7/submissions''), Some (VBool False),
            Some (VStr ''No Submission''), Some (VStr ''2024-09-08 23:59:00 -0700''))])"
  by code_simp

lemma get_courses_terms:
  assumes "logged_in self = Some True"
    and "session_get srv BASE_URL self = (r, self1)" and "status_code r = 200"
    and "term_labels (soup r) = Some terms"
  shows "fst (get_courses srv self) = terms_loop (filter has_container terms) []"
  using assms terms_loop_skip [of terms "[]"]
  by (auto simp: get_courses_def response_check_ok term_labels_def
      is_heading_def [abs_def] is_course_list_def [abs_def]
      split: option.splits sum.splits)

lemma get_courses_box_without_names:
  assumes "logged_in self = Some True"
    and "session_get srv BASE_URL self = (r, self1)" and "status_code r = 200"
    and "visited_boxes (soup r) = Some boxes"
    and "list_ex (\<lambda>tb. is_anchor tb \<and> \<not> has_names (snd tb)) boxes"
  shows "\<exists>e. get_courses srv self = (Inl e, self1) \<and> lookup_error e"
proof -
  from assms(5) obtain tb where tb: "tb \<in> set boxes" "is_anchor tb" "\<not> has_names (snd tb)"
    by (auto simp: list_ex_iff)
  from make_course_no_names [OF tb(3), of "fst tb"] tb(1,2)
  have "list_ex (\<lambda>tb. is_anchor tb \<and> (\<exists>e. make_course (fst tb) (snd tb) = Inl e)) boxes"
    unfolding list_ex_iff by blast
  from pairs_loop_fails [OF this, of "[]"] get_courses_visited [OF assms(1-4)]
  show ?thesis by (auto simp: lookup_error_def)
qed

subsection \<open>The digits after the last slash\<close>
















subsection \<open>The courses that are returned\<close>


lemma map_Inr_transfer:
  "map Inr cs = map f xs \<Longrightarrow> (\<And>x c. f x = Inr c \<Longrightarrow> g c = h x) \<Longrightarrow> map g cs = map h xs"
proof (induction cs arbitrary: xs)
  case Nil
  then show ?case by simp
next
  case (Cons c cs)
  from Cons.prems(1) obtain x xs' where xs: "xs = x # xs'" by (cases xs) auto
  with Cons.prems(1) have "f x = Inr c" and "map Inr cs = map f xs'" by simp_all
  with Cons.IH [of xs'] Cons.prems(2) xs show ?case by simp
qed



text \<open>
  Three pages: a course that links to \<^verbatim>\<open>/courses/42\<close>, a course that links to
  \<^verbatim>\<open>/2024/courses/c1907\<close>, and a course that links to \<^verbatim>\<open>/courses/new\<close>.
\<close>

lemma two_term_courses:
  "get_courses (site two_term_root to_account) logged_client
   = (Inr [algorithms ''Fall 2024'', algorithms ''Spring 2024''],
      logged_client\<lparr>session := [GET BASE_URL],
         log := [(INFO, ''[Info] Found 2 courses.'')]\<rparr>)"
  by code_simp


text \<open>
  Against claim C10 as it is worded: two term labels stand before one container that holds
  one anchor. The page has one anchor of class \<^verbatim>\<open>courseBox\<close>, and \<^verbatim>\<open>get_courses\<close> returns two
  courses, one for each label.
\<close>

theorem C10_counterexample:
  "length (anchor_boxes two_term_page) = 1
   \<and> fst (get_courses (site two_term_root to_account) logged_client)
       = Inr [algorithms ''Fall 2024'', algorithms ''Spring 2024'']"
  by code_simp

text \<open>
  Claim C10, amended. On a page with its heading and course list, the visited boxes are: for
  every term label in document order, the elements of class \<^verbatim>\<open>courseBox\<close> below the first
  sibling of class \<^verbatim>\<open>courseList--coursesForTerm\<close> that follows the label, in document order.
  A box is in the list once for each label it is visited for, and a box outside such a
  container is not in it. A visited box that is no anchor is skipped: it gives no course
  and does not make the call fail. When \<^verbatim>\<open>get_courses\<close> returns, the courses are exactly the
  courses built from the visited anchors, one for each visit and in the order of the
  visits, each with the name of its label and the \<^verbatim>\<open>href\<close> of its anchor; the call returns
  whenever every visited anchor can be turned into a course, and its result is that of the
  loop run on the visited anchors alone. When the visited anchors are exactly the anchors of
  class \<^verbatim>\<open>courseBox\<close> of the page in document order, the courses returned carry the
  \<^verbatim>\<open>href\<close>s of those anchors, one each and in document order.
\<close>

theorem C10_non_anchor_boxes_skipped:
  assumes "logged_in self = Some True"
    and "session_get srv BASE_URL self = (r, self1)" and "status_code r = 200"
    and "visited_boxes (soup r) = Some boxes"
  shows "(\<forall>courses self2. get_courses srv self = (Inr courses, self2) \<longrightarrow>
            map Inr courses
              = map (\<lambda>tb. make_course (fst tb) (snd tb)) (filter is_anchor boxes)
            \<and> map term courses = map fst (filter is_anchor boxes)
            \<and> map Course.url courses
              = map (\<lambda>tb. attrs (snd tb) ''href'') (filter is_anchor boxes))
       \<and> (list_all (\<lambda>tb. is_anchor tb \<longrightarrow> (\<exists>c. make_course (fst tb) (snd tb) = Inr c)) boxes
            \<longrightarrow> (\<exists>courses self2. get_courses srv self = (Inr courses, self2)))
       \<and> fst (get_courses srv self) = pairs_loop (filter is_anchor boxes) []
       \<and> (\<exists>terms. term_labels (soup r) = Some terms \<and> boxes = concat (map term_boxes terms))
       \<and> (\<forall>courses self2. get_courses srv self = (Inr courses, self2)
            \<and> map snd (filter is_anchor boxes) = anchor_boxes (soup r) \<longrightarrow>
            map Course.url courses = map (\<lambda>b. attrs b ''href'') (anchor_boxes (soup r)))"
proof -
  have made: "map Inr courses
        = map (\<lambda>tb. make_course (fst tb) (snd tb)) (filter is_anchor boxes)
      \<and> map term courses = map fst (filter is_anchor boxes)
      \<and> map Course.url courses = map (\<lambda>tb. attrs (snd tb) ''href'') (filter is_anchor boxes)"
    if g: "get_courses srv self = (Inr courses, self2)" for courses self2
  proof -
    from g get_courses_visited [OF assms] have "pairs_loop boxes [] = Inr courses"
      by (auto split: sum.splits)
    from pairs_loop_Inr [OF this]
    have m: "map Inr courses
        = map (\<lambda>tb. make_course (fst tb) (snd tb)) (filter is_anchor boxes)"
      by simp
    from map_Inr_transfer [OF m, of "term" fst] make_course_Inr
    have t: "map term courses = map fst (filter is_anchor boxes)" by blast
    from map_Inr_transfer [OF m, of Course.url "\<lambda>tb. attrs (snd tb) ''href''"] make_course_Inr
    have u: "map Course.url courses
        = map (\<lambda>tb. attrs (snd tb) ''href'') (filter is_anchor boxes)" by blast
    from m t u show ?thesis by simp
  qed
  have 1: "\<forall>courses self2. get_courses srv self = (Inr courses, self2) \<longrightarrow>
            map Inr courses
              = map (\<lambda>tb. make_course (fst tb) (snd tb)) (filter is_anchor boxes)
            \<and> map term courses = map fst (filter is_anchor boxes)
            \<and> map Course.url courses
              = map (\<lambda>tb. attrs (snd tb) ''href'') (filter is_anchor boxes)"
    using made by blast
  have 2: "list_all (\<lambda>tb. is_anchor tb \<longrightarrow> (\<exists>c. make_course (fst tb) (snd tb) = Inr c)) boxes
            \<longrightarrow> (\<exists>courses self2. get_courses srv self = (Inr courses, self2))"
  proof
    assume "list_all (\<lambda>tb. is_anchor tb \<longrightarrow> (\<exists>c. make_course (fst tb) (snd tb) = Inr c)) boxes"
    from pairs_loop_succeeds [OF this, of "[]"] get_courses_visited [OF assms]
    show "\<exists>courses self2. get_courses srv self = (Inr courses, self2)" by auto
  qed
  have 3: "fst (get_courses srv self) = pairs_loop (filter is_anchor boxes) []"
    using get_courses_visited [OF assms] pairs_loop_filter [of boxes "[]"]
    by (auto split: sum.splits)
  have 4: "\<exists>terms. term_labels (soup r) = Some terms \<and> boxes = concat (map term_boxes terms)"
    using assms(4) by (auto simp: visited_boxes_def)
  have 5: "\<forall>courses self2. get_courses srv self = (Inr courses, self2)
            \<and> map snd (filter is_anchor boxes) = anchor_boxes (soup r) \<longrightarrow>
            map Course.url courses = map (\<lambda>b. attrs b ''href'') (anchor_boxes (soup r))"
  proof (intro allI impI)
    fix courses self2
    assume a: "get_courses srv self = (Inr courses, self2)
            \<and> map snd (filter is_anchor boxes) = anchor_boxes (soup r)"
    with made have "map Course.url courses
        = map (\<lambda>tb. attrs (snd tb) ''href'') (filter is_anchor boxes)" by blast
    also have "\<dots> = map (\<lambda>b. attrs b ''href'') (map snd (filter is_anchor boxes))"
      by simp
    finally show "map Course.url courses = map (\<lambda>b. attrs b ''href'') (anchor_boxes (soup r))"
      using a by simp
  qed
  from 1 2 3 4 5 show ?thesis by blast
qed

text \<open>
  The example root page, where the anchor and a button of class \<^verbatim>\<open>courseBox\<close> are visited
  once; the page with two labels before one container, where the anchor is visited twice;
  and the page whose container is no sibling of the label, where the anchor is not visited.
\<close>

lemma root_page_visits_anchors:
  "map snd (filter is_anchor (the (visited_boxes root_page))) = anchor_boxes root_page"
  by (simp add: visited_boxes_def term_labels_def term_boxes_def find_tag_def find_all_def
      find_next_sibling_def is_heading_def is_course_list_def is_anchor_def is_anchor_box_def
      anchor_boxes_def named_def has_class_def tag_string_def root_page_def course_list_def
      course_box_def add_course_box_def token_field_def el_def)


theorem C10_non_anchor_boxes_skipped_witness:
  "map (\<lambda>tb. (fst tb, name (snd tb), classes (snd tb))) (the (visited_boxes root_page))
     = [(''Fall 2024'', ''a'', [''courseBox'']),
        (''Fall 2024'', ''button'', [''courseBox'', ''courseBox-new''])]
   \<and> get_courses (site ok_root to_account) logged_client
     = (Inr [a_course], logged_client\<lparr>session := [GET BASE_URL],
         log := [(INFO, ''[Info] Found 1 courses.'')]\<rparr>)
   \<and> map (\<lambda>tb. make_course (fst tb) (snd tb)) (filter is_anchor (the (visited_boxes root_page)))
     = [Inr a_course]
   \<and> map Course.url [a_course] = map (\<lambda>b. attrs b ''href'') (anchor_boxes root_page)
   \<and> map (\<lambda>tb. (fst tb, name (snd tb), href_of (snd tb))) (the (visited_boxes two_term_page))
     = [(''Fall 2024'', ''a'', ''/2024/courses/c1907''),
        (''Spring 2024'', ''a'', ''/2024/courses/c1907'')]
   \<and> fst (get_courses (site two_term_root to_account) logged_client)
     = Inr [algorithms ''Fall 2024'', algorithms ''Spring 2024'']
   \<and> map (\<lambda>tb. make_course (fst tb) (snd tb))
        (filter is_anchor (the (visited_boxes two_term_page)))
     = [Inr (algorithms ''Fall 2024''), Inr (algorithms ''Spring 2024'')]
   \<and> length (anchor_boxes wrapped_container_page) = 1
   \<and> visited_boxes wrapped_container_page = Some []
   \<and> fst (get_courses (site wrapped_root to_account) logged_client) = Inr []"
proof -
  have v3: "visited_boxes wrapped_container_page = Some []"
  proof -
    have "map_option length (visited_boxes wrapped_container_page) = Some 0" by code_simp
    then show ?thesis by (cases "visited_boxes wrapped_container_page") auto
  qed
  have a3: "length (anchor_boxes wrapped_container_page) = 1" by code_simp
  have 3: "fst (get_courses (site wrapped_root to_account) logged_client) = Inr []"
  proof -
    have s3: "status_code wrapped_root = 200" by (simp add: wrapped_root_def)
    have "visited_boxes (soup wrapped_root) = Some []" using v3 by (simp add: wrapped_root_def)
    from C10_non_anchor_boxes_skipped
      [OF logged_client_flag site_fetch_logged [of wrapped_root to_account BASE_URL] s3 this]
    show ?thesis by simp
  qed
  have v: "visited_boxes (soup ok_root) = Some (the (visited_boxes root_page))"
  proof -
    have "visited_boxes root_page \<noteq> None" by code_simp
    then show ?thesis by (auto simp: ok_root_def)
  qed
  have v2: "visited_boxes (soup two_term_root) = Some (the (visited_boxes two_term_page))"
  proof -
    have "visited_boxes two_term_page \<noteq> None" by code_simp
    then show ?thesis by (auto simp: two_term_root_def)
  qed
  have s: "status_code ok_root = 200" "status_code two_term_root = 200"
    by (simp_all add: ok_root_def two_term_root_def)
  have b: "map (\<lambda>tb. (fst tb, name (snd tb), classes (snd tb))) (the (visited_boxes root_page))
     = [(''Fall 2024'', ''a'', [''courseBox'']),
        (''Fall 2024'', ''button'', [''courseBox'', ''courseBox-new''])]"
    by code_simp
  have b2: "map (\<lambda>tb. (fst tb, name (snd tb), href_of (snd tb)))
              (the (visited_boxes two_term_page))
     = [(''Fall 2024'', ''a'', ''/2024/courses/c1907''),
        (''Spring 2024'', ''a'', ''/2024/courses/c1907'')]"
    by code_simp
  have soup: "soup ok_root = root_page" by (simp add: ok_root_def)
  note A = C10_non_anchor_boxes_skipped
    [OF logged_client_flag site_fetch_logged [of ok_root to_account BASE_URL] s(1) v,
     unfolded soup]
  note B = C10_non_anchor_boxes_skipped
    [OF logged_client_flag site_fetch_logged [of two_term_root to_account BASE_URL] s(2) v2]
  have 1: "map (\<lambda>tb. make_course (fst tb) (snd tb))
             (filter is_anchor (the (visited_boxes root_page))) = [Inr a_course]
      \<and> map Course.url [a_course] = map (\<lambda>b. attrs b ''href'') (anchor_boxes root_page)"
  proof -
    from A have made: "\<And>courses self2.
        get_courses (site ok_root to_account) logged_client = (Inr courses, self2) \<Longrightarrow>
        map Inr courses = map (\<lambda>tb. make_course (fst tb) (snd tb))
                            (filter is_anchor (the (visited_boxes root_page)))"
      by blast
    from A have urls: "\<And>courses self2.
        get_courses (site ok_root to_account) logged_client = (Inr courses, self2) \<Longrightarrow>
        map snd (filter is_anchor (the (visited_boxes root_page))) = anchor_boxes root_page \<Longrightarrow>
        map Course.url courses = map (\<lambda>b. attrs b ''href'') (anchor_boxes root_page)"
      by blast
    from made [OF example_courses] urls [OF example_courses root_page_visits_anchors]
    show ?thesis by simp
  qed
  have 2: "map (\<lambda>tb. make_course (fst tb) (snd tb))
        (filter is_anchor (the (visited_boxes two_term_page)))
     = [Inr (algorithms ''Fall 2024''), Inr (algorithms ''Spring 2024'')]"
  proof -
    from B have "\<And>courses self2.
        get_courses (site two_term_root to_account) logged_client = (Inr courses, self2) \<Longrightarrow>
        map Inr courses = map (\<lambda>tb. make_course (fst tb) (snd tb))
                            (filter is_anchor (the (visited_boxes two_term_page)))"
      by blast
    from this [OF two_term_courses] show ?thesis by simp
  qed
  from 1 2 3 a3 v3 b b2 example_courses two_term_courses show ?thesis by simp
qed

subsection \<open>What a missing landmark does\<close>

text \<open>
  Against claim C6 as it is worded: a term label that is not followed by a container of
  courses is skipped, and \<^verbatim>\<open>get_courses\<close> returns the empty list; and a course page without
  the assignments table makes \<^verbatim>\<open>get_assignments\<close> raise an attribute error of the
  interpreter, not a \<^verbatim>\<open>ResponseError\<close>.
\<close>

theorem C6_counterexample:
  "fst (get_courses (site no_container_root to_account) logged_client) = Inr []
   \<and> fst (get_assignments (site ok_root to_account) a_course logged_client)
       = Inl (AttributeError ''find'')"
proof -
  have 1: "fst (get_courses (site no_container_root to_account) logged_client) = Inr []"
    by code_simp
  have t: "find_tag is_assignments_table (soup ok_root) = None" by code_simp
  have s: "status_code ok_root = 200" by (simp add: ok_root_def)
  from get_assignments_no_table [OF logged_client_flag site_fetch_logged s t] 1
  show ?thesis by simp
qed

text \<open>
  Claim C6, amended. For a logged-in client and a page fetched with status 200:
  \<^item> without the heading \<^verbatim>\<open>Your Courses\<close>, \<^verbatim>\<open>get_courses\<close> raises \<^verbatim>\<open>ResponseError\<close>;
  \<^item> with the heading but without the \<^verbatim>\<open>courseList\<close> container after it, \<^verbatim>\<open>get_courses\<close>
    raises an attribute error;
  \<^item> a term label that is followed by no sibling of class \<^verbatim>\<open>courseList--coursesForTerm\<close> is
    skipped: the result is that of the loop over the other labels. A label that such a
    sibling follows is not skipped, also when the sibling is the container of a later
    label: the label is given the course boxes of the first such sibling, under its own
    name;
  \<^item> a visited anchor box without its short name or its name node makes the whole call
    raise a type, attribute, key or value error;
  \<^item> without the assignments table, or without its body, \<^verbatim>\<open>get_assignments\<close> raises an
    attribute error;
  \<^item> a row without the submit button, the status node or one of the two time elements makes
    the whole call raise a type, attribute, key or value error.
\<close>

theorem C6_missing_landmarks:
  "(logged_in self = Some True \<and> session_get srv BASE_URL self = (r, self1)
      \<and> status_code r = 200 \<longrightarrow>
      (find_tag is_heading (soup r) = None \<longrightarrow>
         get_courses srv self = (Inl (ResponseError no_heading_message), self1))
      \<and> (\<forall>current_heading. find_tag is_heading (soup r) = Some current_heading
            \<and> find_next_sibling is_course_list current_heading = None \<longrightarrow>
            get_courses srv self = (Inl (AttributeError ''find_all''), self1))
      \<and> (\<forall>terms. term_labels (soup r) = Some terms \<longrightarrow>
            fst (get_courses srv self) = terms_loop (filter has_container terms) []
            \<and> fst (get_courses srv self) = pairs_loop (concat (map term_boxes terms)) [])
      \<and> (\<forall>boxes. visited_boxes (soup r) = Some boxes
            \<and> list_ex (\<lambda>tb. is_anchor tb \<and> \<not> has_names (snd tb)) boxes \<longrightarrow>
            (\<exists>e. get_courses srv self = (Inl e, self1) \<and> lookup_error e)))
   \<and> (logged_in self = Some True \<and> session_get srv (get_url course) self = (r, self1)
      \<and> status_code r = 200 \<longrightarrow>
      (find_tag is_assignments_table (soup r) = None \<longrightarrow>
         get_assignments srv course self = (Inl (AttributeError ''find''), self1))
      \<and> (\<forall>assignments_data. find_tag is_assignments_table (soup r) = Some assignments_data
            \<and> find_tag (named ''tbody'') (contents assignments_data) = None \<longrightarrow>
            get_assignments srv course self = (Inl (AttributeError ''find_all''), self1))
      \<and> (\<forall>rows. table_rows (soup r) = Some rows
            \<and> list_ex (\<lambda>row. \<not> has_button row \<or> \<not> has_status row \<or> \<not> has_times row) rows \<longrightarrow>
            (\<exists>e. get_assignments srv course self = (Inl e, self1) \<and> lookup_error e)))"
proof (intro conjI impI allI)
  assume a: "logged_in self = Some True \<and> session_get srv BASE_URL self = (r, self1)
      \<and> status_code r = 200"
  {
    assume "find_tag is_heading (soup r) = None"
    with a show "get_courses srv self = (Inl (ResponseError no_heading_message), self1)"
      by (simp add: get_courses_no_heading)
  }
  {
    fix current_heading
    assume "find_tag is_heading (soup r) = Some current_heading
            \<and> find_next_sibling is_course_list current_heading = None"
    with a show "get_courses srv self = (Inl (AttributeError ''find_all''), self1)"
      by (simp add: get_courses_no_course_list)
  }
  {
    fix terms
    assume "term_labels (soup r) = Some terms"
    with a show "fst (get_courses srv self) = terms_loop (filter has_container terms) []"
      by (simp add: get_courses_terms)
  }
  {
    fix terms
    assume "term_labels (soup r) = Some terms"
    with a have "fst (get_courses srv self) = terms_loop (filter has_container terms) []"
      by (simp add: get_courses_terms)
    also have "\<dots> = terms_loop terms []" by (rule terms_loop_skip [symmetric])
    also have "\<dots> = pairs_loop (concat (map term_boxes terms)) []"
      by (rule terms_loop_pairs)
    finally show "fst (get_courses srv self) = pairs_loop (concat (map term_boxes terms)) []" .
  }
  {
    fix boxes
    assume "visited_boxes (soup r) = Some boxes
            \<and> list_ex (\<lambda>tb. is_anchor tb \<and> \<not> has_names (snd tb)) boxes"
    with a show "\<exists>e. get_courses srv self = (Inl e, self1) \<and> lookup_error e"
      by (simp add: get_courses_box_without_names)
  }
next
  assume a: "logged_in self = Some True \<and> session_get srv (get_url course) self = (r, self1)
      \<and> status_code r = 200"
  {
    assume "find_tag is_assignments_table (soup r) = None"
    with a show "get_assignments srv course self = (Inl (AttributeError ''find''), self1)"
      by (simp add: get_assignments_no_table)
  }
  {
    fix assignments_data
    assume "find_tag is_assignments_table (soup r) = Some assignments_data
            \<and> find_tag (named ''tbody'') (contents assignments_data) = None"
    with a show "get_assignments srv course self = (Inl (AttributeError ''find_all''), self1)"
      by (simp add: get_assignments_no_tbody)
  }
  {
    fix rows
    assume b: "table_rows (soup r) = Some rows
            \<and> list_ex (\<lambda>row. \<not> has_button row \<or> \<not> has_status row \<or> \<not> has_times row) rows"
    then obtain row where row: "row \<in> set rows"
        "\<not> has_button row \<or> \<not> has_status row \<or> \<not> has_times row"
      by (auto simp: list_ex_iff)
    from parse_row_incomplete [OF row(2)] row(1)
    have "list_ex (\<lambda>row. \<exists>e. parse_row row = Inl e) rows"
      unfolding list_ex_iff by blast
    from rows_loop_fails [OF this, of "[]"] a b
    show "\<exists>e. get_assignments srv course self = (Inl e, self1) \<and> lookup_error e"
      by (auto simp: get_assignments_rows)
  }
qed


text \<open>
  A page without the heading, a page whose term label has no container, a page whose first
  label has no container of its own and is given the courses of the second, a page whose
  container is below a sibling of the label and is not found, a course page without the
  table, and a course page whose row has no submit button.
\<close>

theorem C6_missing_landmarks_witness:
  "get_courses (site no_token_root to_account) logged_client
     = (Inl (ResponseError no_heading_message), logged_client\<lparr>session := [GET BASE_URL]\<rparr>)
   \<and> fst (get_courses (site no_container_root to_account) logged_client) = Inr []
   \<and> map has_container (the (term_labels two_term_page)) = [True, True]
   \<and> fst (get_courses (site two_term_root to_account) logged_client)
       = Inr [algorithms ''Fall 2024'', algorithms ''Spring 2024'']
   \<and> map has_container (the (term_labels wrapped_container_page)) = [False]
   \<and> fst (get_courses (site wrapped_root to_account) logged_client) = Inr []
   \<and> get_assignments (site ok_root to_account) a_course logged_client
     = (Inl (AttributeError ''find''), logged_client\<lparr>session := [GET (get_url a_course)]\<rparr>)
   \<and> (\<exists>e. get_assignments (site no_button_course to_account) a_course logged_client
            = (Inl e, logged_client\<lparr>session := [GET (get_url a_course)]\<rparr>)
         \<and> lookup_error e)"
proof -
  note T = C6_missing_landmarks [where self = logged_client and course = a_course]
  have 1: "get_courses (site no_token_root to_account) logged_client
     = (Inl (ResponseError no_heading_message), logged_client\<lparr>session := [GET BASE_URL]\<rparr>)"
  proof -
    have h: "find_tag is_heading (soup no_token_root) = None" by code_simp
    have s: "status_code no_token_root = 200" by (simp add: no_token_root_def)
    from T [where srv = "site no_token_root to_account" and r = no_token_root
              and ?self1.0 = "logged_client\<lparr>session := [GET BASE_URL]\<rparr>"]
      logged_client_flag site_fetch_logged [of no_token_root to_account BASE_URL] h s
    show ?thesis by simp
  qed
  have 2: "fst (get_courses (site no_container_root to_account) logged_client) = Inr []"
  proof -
    have "term_labels root_page_no_container \<noteq> None" by code_simp
    then have l: "term_labels (soup no_container_root)
                    = Some (the (term_labels root_page_no_container))"
      by (auto simp: no_container_root_def)
    have f: "filter has_container (the (term_labels root_page_no_container)) = []"
      by code_simp
    have s: "status_code no_container_root = 200" by (simp add: no_container_root_def)
    from T [where srv = "site no_container_root to_account" and r = no_container_root
              and ?self1.0 = "logged_client\<lparr>session := [GET BASE_URL]\<rparr>"]
      logged_client_flag site_fetch_logged [of no_container_root to_account BASE_URL] l s
    have "fst (get_courses (site no_container_root to_account) logged_client)
            = terms_loop (filter has_container (the (term_labels root_page_no_container))) []"
      by simp
    with f show ?thesis by simp
  qed
  have two: "map has_container (the (term_labels two_term_page)) = [True, True]
      \<and> fst (get_courses (site two_term_root to_account) logged_client)
          = Inr [algorithms ''Fall 2024'', algorithms ''Spring 2024'']"
  proof -
    have "term_labels two_term_page \<noteq> None" by code_simp
    then have l: "term_labels (soup two_term_root) = Some (the (term_labels two_term_page))"
      by (auto simp: two_term_root_def)
    have f: "map has_container (the (term_labels two_term_page)) = [True, True]"
      by code_simp
    have e: "terms_loop (filter has_container (the (term_labels two_term_page))) []
               = Inr [algorithms ''Fall 2024'', algorithms ''Spring 2024'']"
      by code_simp
    have s: "status_code two_term_root = 200" by (simp add: two_term_root_def)
    from T [where srv = "site two_term_root to_account" and r = two_term_root
              and ?self1.0 = "logged_client\<lparr>session := [GET BASE_URL]\<rparr>"]
      logged_client_flag site_fetch_logged [of two_term_root to_account BASE_URL] l s
    have "fst (get_courses (site two_term_root to_account) logged_client)
            = terms_loop (filter has_container (the (term_labels two_term_page))) []"
      by simp
    with e f show ?thesis by simp
  qed
  have wrapped: "map has_container (the (term_labels wrapped_container_page)) = [False]
      \<and> fst (get_courses (site wrapped_root to_account) logged_client) = Inr []"
  proof -
    have "term_labels wrapped_container_page \<noteq> None" by code_simp
    then have l: "term_labels (soup wrapped_root)
                    = Some (the (term_labels wrapped_container_page))"
      by (auto simp: wrapped_root_def)
    have f: "map has_container (the (term_labels wrapped_container_page)) = [False]"
      by code_simp
    have e: "terms_loop (filter has_container (the (term_labels wrapped_container_page))) []
               = Inr []"
      by code_simp
    have s: "status_code wrapped_root = 200" by (simp add: wrapped_root_def)
    from T [where srv = "site wrapped_root to_account" and r = wrapped_root
              and ?self1.0 = "logged_client\<lparr>session := [GET BASE_URL]\<rparr>"]
      logged_client_flag site_fetch_logged [of wrapped_root to_account BASE_URL] l s
    have "fst (get_courses (site wrapped_root to_account) logged_client)
            = terms_loop (filter has_container (the (term_labels wrapped_container_page))) []"
      by simp
    with e f show ?thesis by simp
  qed
  have 3: "get_assignments (site ok_root to_account) a_course logged_client
     = (Inl (AttributeError ''find''), logged_client\<lparr>session := [GET (get_url a_course)]\<rparr>)"
  proof -
    have h: "find_tag is_assignments_table (soup ok_root) = None" by code_simp
    have s: "status_code ok_root = 200" by (simp add: ok_root_def)
    from T [where srv = "site ok_root to_account" and r = ok_root
              and ?self1.0 = "logged_client\<lparr>session := [GET (get_url a_course)]\<rparr>"]
      logged_client_flag site_fetch_logged [of ok_root to_account "get_url a_course"] h s
    show ?thesis by simp
  qed
  have 4: "\<exists>e. get_assignments (site no_button_course to_account) a_course logged_client
            = (Inl e, logged_client\<lparr>session := [GET (get_url a_course)]\<rparr>)
         \<and> lookup_error e"
  proof -
    have "table_rows course_page_no_button \<noteq> None" by code_simp
    then have l: "table_rows (soup no_button_course)
                    = Some (the (table_rows course_page_no_button))"
      by (auto simp: no_button_course_def)
    have f: "list_ex (\<lambda>row. \<not> has_button row \<or> \<not> has_status row \<or> \<not> has_times row)
               (the (table_rows course_page_no_button))"
      by code_simp
    have s: "status_code no_button_course = 200" by (simp add: no_button_course_def)
    from T [where srv = "site no_button_course to_account" and r = no_button_course
              and ?self1.0 = "logged_client\<lparr>session := [GET (get_url a_course)]\<rparr>"]
      logged_client_flag site_fetch_logged [of no_button_course to_account "get_url a_course"]
      l f s
    show ?thesis by simp
  qed
  from 1 2 two wrapped 3 4 show ?thesis by simp
qed




end
